theory Spec2Isabelle
  imports Complex_Main
begin

section \<open>Arrays, errors and external collaborators\<close>

text \<open>
  The embedding follows \<^verbatim>\<open>src/feedbax/nn.py\<close> and \<^verbatim>\<open>src/feedbax/loss.py\<close>.
  Array entries are real numbers: arithmetic is the exact arithmetic of finite values, so
  rounding, infinities and NaN of the floating-point backend are outside the model.
  One-dimensional arrays are lists, two-dimensional arrays are lists of rows.
  Every exception the source can raise is a value \<open>Inl e\<close> of a sum type.
\<close>

datatype error =
  ValueError | TypeError | ShapeError | ZeroDivisionError | IndexError | AttributeError | KeyError

type_synonym vector = "real list"
type_synonym matrix = "real list list"
type_synonym PRNGKey = nat

text \<open>Two matrices have the same shape: as many rows, and row by row as many columns.\<close>

definition same_shape :: "matrix \<Rightarrow> matrix \<Rightarrow> bool" where
  "same_shape a b = list_all2 (\<lambda>r s. length r = length s) a b"

text \<open>
  \<^verbatim>\<open>a * b\<close> on two-dimensional arrays. Operands of equal shape are multiplied entry by
  entry. Operands of different shapes raise here; the cases NumPy would broadcast are not
  modelled, and every theorem below is about operands of equal shape.
\<close>

definition mul_elementwise :: "matrix \<Rightarrow> matrix \<Rightarrow> error + matrix" where
  "mul_elementwise a b =
     (if same_shape a b then Inr (map2 (map2 (*)) a b) else Inl ShapeError)"

definition vdot :: "vector \<Rightarrow> vector \<Rightarrow> real" where
  "vdot x y = sum_list (map2 (*) x y)"

text \<open>\<^verbatim>\<open>jnp.dot(x, m.T)\<close> for a vector \<open>x\<close>: entry \<open>j\<close> is the product of \<open>x\<close> with row \<open>j\<close> of \<open>m\<close>.\<close>

definition dot_vec_matT :: "vector \<Rightarrow> matrix \<Rightarrow> error + vector" where
  "dot_vec_matT x m =
     (if list_all (\<lambda>r. length r = length x) m then Inr (map (\<lambda>r. vdot x r) m)
      else Inl ShapeError)"

text \<open>\<^verbatim>\<open>jnp.dot(m, x)\<close> for a matrix \<open>m\<close> and a vector \<open>x\<close>.\<close>

definition dot_mat_vec :: "matrix \<Rightarrow> vector \<Rightarrow> error + vector" where
  "dot_mat_vec m x =
     (if list_all (\<lambda>r. length r = length x) m then Inr (map (\<lambda>r. vdot r x) m)
      else Inl ShapeError)"

text \<open>
  \<^verbatim>\<open>a + b\<close> on vectors, with NumPy's broadcasting rule for one axis: equal lengths add
  entry by entry, a vector of length one is stretched, anything else raises.
\<close>

definition add_vec :: "vector \<Rightarrow> vector \<Rightarrow> error + vector" where
  "add_vec a b =
     (if length a = length b then Inr (map2 (+) a b)
      else if length a = 1 then Inr (map (\<lambda>y. a ! 0 + y) b)
      else if length b = 1 then Inr (map (\<lambda>x. x + b ! 0) a)
      else Inl ShapeError)"

definition scale_vec :: "real \<Rightarrow> vector \<Rightarrow> vector" where
  "scale_vec c v = map (\<lambda>x. c * x) v"

definition zeros :: "nat \<Rightarrow> vector" where
  "zeros n = replicate n 0"

definition zeros2 :: "nat \<Rightarrow> nat \<Rightarrow> matrix" where
  "zeros2 r c = replicate r (replicate c 0)"

definition ones2 :: "nat \<Rightarrow> nat \<Rightarrow> matrix" where
  "ones2 r c = replicate r (replicate c 1)"

text \<open>
  \<^verbatim>\<open>eqx.nn.Linear\<close> is a class of the Equinox library: a weight matrix of shape
  \<open>(out_features, in_features)\<close> and an optional bias.
\<close>

record Linear =
  weight :: matrix
  bias :: "vector option"

section \<open>MaskedLinear\<close>

record MaskedLinear =
  linear :: Linear
  mask :: matrix

text \<open>
  \<^verbatim>\<open>MaskedLinear.__init__\<close>. The constructor of \<^verbatim>\<open>eqx.nn.Linear\<close> draws the weights
  from the key; it is the parameter \<open>eqx_Linear\<close>.
\<close>

definition MaskedLinear_init ::
  "(nat \<Rightarrow> nat \<Rightarrow> bool \<Rightarrow> PRNGKey \<Rightarrow> Linear) \<Rightarrow> nat \<Rightarrow> nat \<Rightarrow> matrix \<Rightarrow> bool \<Rightarrow> PRNGKey
     \<Rightarrow> error + MaskedLinear" where
  "MaskedLinear_init eqx_Linear in_features out_features mask0 use_bias key =
     (let l = eqx_Linear in_features out_features use_bias key in
      case mul_elementwise (weight l) mask0 of
        Inl e \<Rightarrow> Inl e
      | Inr w \<Rightarrow> Inr \<lparr>linear = l\<lparr>weight := w\<rparr>, mask = mask0\<rparr>)"

text \<open>\<^verbatim>\<open>MaskedLinear.__call__\<close>; the key is unused by the source.\<close>

definition MaskedLinear_call :: "MaskedLinear \<Rightarrow> vector \<Rightarrow> error + vector" where
  "MaskedLinear_call self x =
     (case mul_elementwise (weight (linear self)) (mask self) of
        Inl e \<Rightarrow> Inl e
      | Inr masked_weight \<Rightarrow>
          (case dot_vec_matT x masked_weight of
             Inl e \<Rightarrow> Inl e
           | Inr result \<Rightarrow>
               (case bias (linear self) of
                  None \<Rightarrow> Inr result
                | Some b \<Rightarrow> add_vec result b)))"


section \<open>Python values and sequencing of exceptions\<close>

text \<open>Evaluation stops at the first exception: the rest runs on a result only.\<close>

definition and_then :: "error + 'a \<Rightarrow> ('a \<Rightarrow> error + 'b) \<Rightarrow> error + 'b" where
  "and_then m f = (case m of Inl e \<Rightarrow> Inl e | Inr x \<Rightarrow> f x)"

text \<open>
  A summand of the cell's update is \<^verbatim>\<open>None\<close>, a Python scalar (the literal \<^verbatim>\<open>0\<close> of the
  disabled bias and the disabled noise) or an array.
\<close>

datatype pyval = PyNone | Scalar real | Array vector

fun add_pyval :: "vector \<Rightarrow> pyval \<Rightarrow> error + vector" where
  "add_pyval v PyNone = Inl TypeError"
| "add_pyval v (Scalar c) = Inr (map (\<lambda>x. x + c) v)"
| "add_pyval v (Array b) = add_vec v b"

section \<open>LeakyRNNCell\<close>

text \<open>
  \<^verbatim>\<open>weight_ih\<close> is a matrix of shape \<open>(hidden_size, input_size)\<close>, or the placeholder
  \<^verbatim>\<open>jnp.array(0)\<close> (a scalar) that \<^verbatim>\<open>__init__\<close> stores when \<open>input_size\<close> is zero.
\<close>

datatype input_weight = Placeholder real | Weights matrix

text \<open>
  The fields of the class that \<^verbatim>\<open>__call__\<close> and the two cached properties read. The
  source's field \<^verbatim>\<open>bias\<close> is \<open>cell_bias\<close> here (\<open>bias\<close> is the field of \<open>Linear\<close>).
\<close>

record LeakyRNNCell =
  weight_hh :: matrix
  weight_ih :: input_weight
  cell_bias :: "vector option"
  use_bias :: bool
  use_noise :: bool
  noise_strength :: real
  dt :: real
  tau :: real
  nonlinearity :: "vector \<Rightarrow> vector"

text \<open>
  \<^verbatim>\<open>functools.cached_property\<close>: reading the attribute calls the decorated function with
  the instance as its only argument. A function declared with a further required
  positional parameter cannot be called that way, and Python raises \<^verbatim>\<open>TypeError\<close>.
\<close>

datatype 'a py_function =
  Takes_self "LeakyRNNCell \<Rightarrow> error + 'a"
| Takes_self_and_arg "LeakyRNNCell \<Rightarrow> real \<Rightarrow> error + 'a"

fun cached_property :: "'a py_function \<Rightarrow> LeakyRNNCell \<Rightarrow> error + 'a" where
  "cached_property (Takes_self f) self = f self"
| "cached_property (Takes_self_and_arg f) self = Inl TypeError"

text \<open>\<^verbatim>\<open>def alpha(self): return self.dt / self.tau\<close>, a division of Python floats.\<close>

definition alpha_body :: "LeakyRNNCell \<Rightarrow> error + real" where
  "alpha_body self = (if tau self = 0 then Inl ZeroDivisionError else Inr (dt self / tau self))"

definition alpha :: "LeakyRNNCell \<Rightarrow> error + real" where
  "alpha = cached_property (Takes_self alpha_body)"

text \<open>
  \<^verbatim>\<open>def noise_std(self, noise_strength)\<close>: the body reads its parameter, not the field.
  \<^verbatim>\<open>math.sqrt\<close> raises \<^verbatim>\<open>ValueError\<close> on a negative argument.
\<close>

definition noise_std_body :: "LeakyRNNCell \<Rightarrow> real \<Rightarrow> error + real option" where
  "noise_std_body self noise_strength_arg =
     (if use_noise self then
        and_then (alpha self) (\<lambda>a.
          if a = 0 then Inl ZeroDivisionError
          else if 2 / a < 0 then Inl ValueError
          else Inr (Some (sqrt (2 / a) * noise_strength_arg)))
      else Inr None)"

definition noise_std :: "LeakyRNNCell \<Rightarrow> error + real option" where
  "noise_std = cached_property (Takes_self_and_arg noise_std_body)"

text \<open>\<^verbatim>\<open>jnp.dot(self.weight_ih, input)\<close>: a scalar times a vector scales it.\<close>

fun dot_weight_ih :: "input_weight \<Rightarrow> vector \<Rightarrow> error + vector" where
  "dot_weight_ih (Placeholder c) x = Inr (scale_vec c x)"
| "dot_weight_ih (Weights m) x = dot_mat_vec m x"

text \<open>
  \<^verbatim>\<open>LeakyRNNCell.__call__\<close>, in Python's order of evaluation. \<^verbatim>\<open>jr.normal(key, shape)\<close>
  is the parameter \<open>jr_normal\<close>, called with the length of the state.
\<close>

definition LeakyRNNCell_call ::
  "(PRNGKey \<Rightarrow> nat \<Rightarrow> vector) \<Rightarrow> LeakyRNNCell \<Rightarrow> vector \<Rightarrow> vector \<Rightarrow> PRNGKey \<Rightarrow> error + vector" where
  "LeakyRNNCell_call jr_normal self input state key =
     (let bias_term = (if use_bias self
                       then (case cell_bias self of None \<Rightarrow> PyNone | Some b \<Rightarrow> Array b)
                       else Scalar 0) in
      and_then (if use_noise self
                then and_then (noise_std self) (\<lambda>std.
                       case std of
                         None \<Rightarrow> Inl TypeError
                       | Some s \<Rightarrow> Inr (Array (scale_vec s (jr_normal key (length state)))))
                else Inr (Scalar 0)) (\<lambda>noise.
      and_then (alpha self) (\<lambda>a.
      and_then (dot_weight_ih (weight_ih self) input) (\<lambda>ih.
      and_then (dot_mat_vec (weight_hh self) state) (\<lambda>hh.
      and_then (add_vec ih hh) (\<lambda>s1.
      and_then (add_pyval s1 bias_term) (\<lambda>s2.
      and_then (add_pyval s2 noise) (\<lambda>s3.
      add_vec (scale_vec (1 - a) state) (scale_vec a (nonlinearity self s3))))))))))"

section \<open>PopulationStructure\<close>

text \<open>
  Python's slice \<^verbatim>\<open>xs[a:b]\<close> with integer bounds: a negative bound counts from the end,
  and both bounds are clipped to the length. \<^verbatim>\<open>xs[:b]\<close> and \<^verbatim>\<open>xs[a:]\<close> leave one bound
  out.
\<close>

definition slice_bound :: "nat \<Rightarrow> int \<Rightarrow> nat" where
  "slice_bound n a = (if a < 0 then nat (max (a + int n) 0) else nat (min a (int n)))"

definition py_slice :: "'a list \<Rightarrow> int \<Rightarrow> int \<Rightarrow> 'a list" where
  "py_slice xs a b =
     take (slice_bound (length xs) b - slice_bound (length xs) a)
       (drop (slice_bound (length xs) a) xs)"

definition py_slice_to :: "'a list \<Rightarrow> int \<Rightarrow> 'a list" where
  "py_slice_to xs b = take (slice_bound (length xs) b) xs"

definition py_slice_from :: "'a list \<Rightarrow> int \<Rightarrow> 'a list" where
  "py_slice_from xs a = drop (slice_bound (length xs) a) xs"

text \<open>\<^verbatim>\<open>jnp.arange(a, b)\<close> on integers: \<open>a, a + 1, \<dots>, b - 1\<close>.\<close>

definition arange :: "int \<Rightarrow> int \<Rightarrow> int list" where
  "arange a b = [a..b - 1]"

type_synonym index_sets = "int list \<times> int list \<times> int list \<times> int list"

definition contiguous_assignment ::
  "int \<Rightarrow> int \<Rightarrow> int \<Rightarrow> int \<Rightarrow> int \<Rightarrow> PRNGKey \<Rightarrow> index_sets" where
  "contiguous_assignment hidden_size n_input_only n_readout_only n_recurrent_only
       n_input_readout key =
     (arange 0 n_input_only,
      arange n_input_only (n_input_only + n_readout_only),
      arange (n_input_only + n_readout_only)
             (n_input_only + n_readout_only + n_recurrent_only),
      arange (n_input_only + n_readout_only + n_recurrent_only) hidden_size)"

record PopulationStructure =
  n_input_only :: int
  n_readout_only :: int
  n_recurrent_only :: int
  n_input_readout :: int
  input_indices :: "int list"
  readout_indices :: "int list"
  input_only_indices :: "int list"
  readout_only_indices :: "int list"
  recurrent_only_indices :: "int list"
  input_readout_indices :: "int list"

text \<open>
  \<^verbatim>\<open>PopulationStructure.create\<close>. \<^verbatim>\<open>jr.permutation(key, hidden_size)\<close>, a random
  permutation of \<open>0, \<dots>, hidden_size - 1\<close>, is the parameter \<open>jr_permutation\<close>. A custom
  \<open>assignment_fn\<close> is called and its four arrays are stored as returned.
\<close>

definition create ::
  "(PRNGKey \<Rightarrow> int \<Rightarrow> int list) \<Rightarrow> int \<Rightarrow> int \<Rightarrow> int \<Rightarrow> int \<Rightarrow> int
     \<Rightarrow> (int \<Rightarrow> int \<Rightarrow> int \<Rightarrow> int \<Rightarrow> int \<Rightarrow> PRNGKey \<Rightarrow> index_sets) option \<Rightarrow> PRNGKey
     \<Rightarrow> error + PopulationStructure" where
  "create jr_permutation hidden_size n_io n_ro n_rec n_ir assignment_fn key =
     (let total = n_io + n_ro + n_rec + n_ir in
      if total \<noteq> hidden_size then Inl ValueError
      else
        (case (case assignment_fn of
                 None \<Rightarrow>
                   (let all_indices = jr_permutation key hidden_size in
                    (py_slice_to all_indices n_io,
                     py_slice all_indices n_io (n_io + n_ro),
                     py_slice all_indices (n_io + n_ro) (n_io + n_ro + n_rec),
                     py_slice_from all_indices (n_io + n_ro + n_rec)))
               | Some f \<Rightarrow> f hidden_size n_io n_ro n_rec n_ir key) of
           (io, ro, rec, ir) \<Rightarrow>
             Inr \<lparr>n_input_only = n_io, n_readout_only = n_ro, n_recurrent_only = n_rec,
                  n_input_readout = n_ir,
                  input_indices = io @ ir, readout_indices = ro @ ir,
                  input_only_indices = io, readout_only_indices = ro,
                  recurrent_only_indices = rec, input_readout_indices = ir\<rparr>))"

text \<open>
  The four index sets of a structure partition the units \<open>0, \<dots>, hidden_size - 1\<close>:
  pairwise disjoint, and their union is all of them.
\<close>

definition partitions_units :: "PopulationStructure \<Rightarrow> int \<Rightarrow> bool" where
  "partitions_units ps hidden_size \<longleftrightarrow>
     set (input_only_indices ps) \<inter> set (readout_only_indices ps) = {}
   \<and> set (input_only_indices ps) \<inter> set (recurrent_only_indices ps) = {}
   \<and> set (input_only_indices ps) \<inter> set (input_readout_indices ps) = {}
   \<and> set (readout_only_indices ps) \<inter> set (recurrent_only_indices ps) = {}
   \<and> set (readout_only_indices ps) \<inter> set (input_readout_indices ps) = {}
   \<and> set (recurrent_only_indices ps) \<inter> set (input_readout_indices ps) = {}
   \<and> set (input_only_indices ps) \<union> set (readout_only_indices ps)
       \<union> set (recurrent_only_indices ps) \<union> set (input_readout_indices ps)
     = {0..<hidden_size}"

section \<open>Layers of the network\<close>

text \<open>
  \<^verbatim>\<open>eqx.nn.Linear.__call__\<close> of the Equinox library: \<^verbatim>\<open>weight @ x + bias\<close>.
\<close>

definition Linear_call :: "Linear \<Rightarrow> vector \<Rightarrow> error + vector" where
  "Linear_call l x =
     and_then (dot_mat_vec (weight l) x) (\<lambda>y.
       case bias l of None \<Rightarrow> Inr y | Some b \<Rightarrow> add_vec y b)"

text \<open>
  An encoder or a readout is a linear layer of the library (what \<^verbatim>\<open>encoder_type\<close> and
  \<^verbatim>\<open>readout_type\<close> build by default) or a \<open>MaskedLinear\<close>.
\<close>

datatype layer = Plain Linear | Masked MaskedLinear

fun layer_call :: "layer \<Rightarrow> vector \<Rightarrow> error + vector" where
  "layer_call (Plain l) x = Linear_call l x"
| "layer_call (Masked m) x = MaskedLinear_call m x"

text \<open>
  \<^verbatim>\<open>getattr(readout, "bias", None)\<close>. A \<open>MaskedLinear\<close> has the attributes \<^verbatim>\<open>linear\<close> and
  \<^verbatim>\<open>mask\<close> only; its bias is an attribute of the wrapped layer, not of the object.
\<close>

fun getattr_bias :: "layer \<Rightarrow> vector option" where
  "getattr_bias (Plain l) = bias l"
| "getattr_bias (Masked m) = None"

text \<open>
  \<^verbatim>\<open>eqx.nn.GRUCell\<close> of the Equinox library: the three gates' input weights are stacked
  row-wise in \<^verbatim>\<open>weight_ih\<close>, of shape \<open>(3 * hidden_size, input_size)\<close>.
\<close>

record GRUCell =
  gru_weight_ih :: matrix
  gru_weight_hh :: matrix
  gru_bias :: "vector option"
  gru_bias_n :: "vector option"

text \<open>
  What \<^verbatim>\<open>hidden_type\<close> builds: the leaky cell of this repository, a gated cell of the
  library, or a stateless linear layer.
\<close>

datatype hidden_layer = Leaky LeakyRNNCell | Gated GRUCell | Stateless Linear

text \<open>\<^verbatim>\<open>hasattr(hidden, 'weight_ih')\<close> and \<^verbatim>\<open>hidden.weight_ih\<close>.\<close>

fun getattr_weight_ih :: "hidden_layer \<Rightarrow> input_weight option" where
  "getattr_weight_ih (Leaky c) = Some (weight_ih c)"
| "getattr_weight_ih (Gated g) = Some (Weights (gru_weight_ih g))"
| "getattr_weight_ih (Stateless l) = None"

text \<open>\<^verbatim>\<open>eqx.tree_at(lambda h: h.weight_ih, hidden, w)\<close>.\<close>

fun set_weight_ih :: "hidden_layer \<Rightarrow> matrix \<Rightarrow> hidden_layer" where
  "set_weight_ih (Leaky c) w = Leaky (c\<lparr>weight_ih := Weights w\<rparr>)"
| "set_weight_ih (Gated g) w = Gated (g\<lparr>gru_weight_ih := w\<rparr>)"
| "set_weight_ih (Stateless l) w = Stateless l"

text \<open>
  Modelled from the spec: \<^verbatim>\<open>n_positional_args\<close> of \<^verbatim>\<open>feedbax.misc\<close>, which counts the
  positional parameters of a callable by inspection. \<^verbatim>\<open>LeakyRNNCell.__call__\<close> takes
  \<open>input, state, key\<close>; the library's gated cell takes \<open>input, hidden\<close> and its linear
  layer takes \<open>x\<close>, each with a keyword-only key.
\<close>

fun n_positional_args :: "hidden_layer \<Rightarrow> nat" where
  "n_positional_args (Leaky c) = 3"
| "n_positional_args (Gated g) = 2"
| "n_positional_args (Stateless l) = 1"

section \<open>NetworkState\<close>

text \<open>
  A field of the state holds an array or \<^verbatim>\<open>None\<close>. The source's field \<^verbatim>\<open>output\<close> is
  \<open>output'\<close> here, since \<open>output\<close> is a keyword of Isabelle.
\<close>

type_synonym pytree = "vector option"

record NetworkState =
  input :: pytree
  hidden :: pytree
  output' :: pytree
  encoding :: pytree

section \<open>SimpleStagedNetwork\<close>

text \<open>
  The functions of the JAX and Equinox libraries that the constructor and the stages
  call: \<^verbatim>\<open>jr.split(key, 3)\<close>, \<^verbatim>\<open>jr.normal(key, shape)\<close>, the constructor of
  \<^verbatim>\<open>eqx.nn.Linear\<close> and the forward pass of \<^verbatim>\<open>eqx.nn.GRUCell\<close>.
\<close>

record library =
  jr_split3 :: "PRNGKey \<Rightarrow> PRNGKey \<times> PRNGKey \<times> PRNGKey"
  jr_normal :: "PRNGKey \<Rightarrow> nat \<Rightarrow> vector"
  eqx_Linear :: "nat \<Rightarrow> nat \<Rightarrow> bool \<Rightarrow> PRNGKey \<Rightarrow> Linear"
  eqx_GRUCell_call :: "GRUCell \<Rightarrow> vector \<Rightarrow> vector \<Rightarrow> error + vector"

text \<open>
  A nonlinearity is any callable: it is applied to whatever the stage selects, an array
  or \<^verbatim>\<open>None\<close>, and may raise.
\<close>

type_synonym nonlinearity_fn = "pytree \<Rightarrow> error + pytree"

text \<open>
  Modelled from the spec: \<^verbatim>\<open>identity_func\<close> of \<^verbatim>\<open>feedbax.misc\<close>, the default of both
  nonlinearities, which returns its argument.
\<close>

definition identity_func :: nonlinearity_fn where
  "identity_func x = Inr x"

text \<open>
  A function of the array library applied entry by entry, such as \<^verbatim>\<open>jnp.tanh\<close>: it
  raises \<^verbatim>\<open>TypeError\<close> on \<^verbatim>\<open>None\<close>.
\<close>

definition elementwise :: "(real \<Rightarrow> real) \<Rightarrow> nonlinearity_fn" where
  "elementwise f x = (case x of None \<Rightarrow> Inl TypeError | Some a \<Rightarrow> Inr (Some (map f a)))"

text \<open>
  The fields of the class. The field \<^verbatim>\<open>hidden\<close> of the class is \<open>hidden\<close> here, and the
  field of the state is \<open>NetworkState.hidden\<close>.
\<close>

record SimpleStagedNetwork =
  input_size :: nat
  hidden :: hidden_layer
  hidden_size :: nat
  hidden_noise_std :: "real option"
  hidden_nonlinearity :: nonlinearity_fn
  out_size :: "nat option"
  out_nonlinearity :: nonlinearity_fn
  readout :: "layer option"
  encoding_size :: "nat option"
  encoder :: "layer option"
  population_structure :: "PopulationStructure option"

text \<open>
  \<^verbatim>\<open>m.at[idx, :].set(v)\<close> and \<^verbatim>\<open>m.at[:, idx].set(v)\<close>: a negative index counts from the
  end, and an index out of bounds is dropped.
\<close>

definition normalize_index :: "nat \<Rightarrow> int \<Rightarrow> int" where
  "normalize_index n k = (if k < 0 then k + int n else k)"

definition set_rows :: "matrix \<Rightarrow> int list \<Rightarrow> real \<Rightarrow> matrix" where
  "set_rows m idx v =
     map (\<lambda>(r, row). if int r \<in> set (map (normalize_index (length m)) idx)
                      then replicate (length row) v else row)
         (enumerate 0 m)"

definition set_cols :: "matrix \<Rightarrow> int list \<Rightarrow> real \<Rightarrow> matrix" where
  "set_cols m idx v =
     map (\<lambda>row. map (\<lambda>(c, x). if int c \<in> set (map (normalize_index (length row)) idx)
                                then v else x)
                     (enumerate 0 row)) m"

text \<open>\<^verbatim>\<open>jnp.tile(m, (3, 1))\<close>: three copies of the rows, one after the other.\<close>

definition tile3 :: "matrix \<Rightarrow> matrix" where
  "tile3 m = m @ m @ m"

text \<open>
  The masking of the hidden layer's input weights in \<^verbatim>\<open>__init__\<close>. The source has the
  same lines twice, with \<open>encoding_size\<close> (lines 421 to 437) and with \<open>input_size\<close> (lines
  450 to 466) as the number of columns; \<open>in_size\<close> stands for either. The shape of the
  scalar placeholder is empty, so reading its first entry raises \<^verbatim>\<open>IndexError\<close>.
\<close>

definition mask_hidden_input ::
  "hidden_layer \<Rightarrow> nat \<Rightarrow> nat \<Rightarrow> PopulationStructure \<Rightarrow> error + hidden_layer" where
  "mask_hidden_input h hidden_size0 in_size ps =
     (case getattr_weight_ih h of
        None \<Rightarrow> Inr h
      | Some (Placeholder c) \<Rightarrow> Inl IndexError
      | Some (Weights w) \<Rightarrow>
          (let hidden_input_mask =
                 (if length w = 3 * hidden_size0
                  then tile3 (set_rows (zeros2 hidden_size0 in_size) (input_indices ps) 1)
                  else set_rows (zeros2 hidden_size0 in_size) (input_indices ps) 1) in
           and_then (mul_elementwise w hidden_input_mask) (\<lambda>masked_weight_ih.
             Inr (set_weight_ih h masked_weight_ih))))"

text \<open>
  The zeroing of the readout's bias in \<^verbatim>\<open>__init__\<close> (lines 488 to 500): the bias is looked
  up on the readout object itself, and only then is the kind of the readout tested.
\<close>

definition zero_readout_bias :: "layer \<Rightarrow> layer" where
  "zero_readout_bias r =
     (case getattr_bias r of
        None \<Rightarrow> r
      | Some b \<Rightarrow>
          (case r of
             Masked m \<Rightarrow> Masked (m\<lparr>linear := (linear m)\<lparr>bias := Some (zeros (length b))\<rparr>\<rparr>)
           | Plain l \<Rightarrow> Plain (l\<lparr>bias := Some (zeros (length b))\<rparr>)))"

definition lift_layer :: "error + MaskedLinear \<Rightarrow> error + layer" where
  "lift_layer r = and_then r (\<lambda>m. Inr (Masked m))"

text \<open>
  \<^verbatim>\<open>SimpleStagedNetwork.__init__\<close>. The intervenors are left out: none of the stages
  below reads them. The field \<^verbatim>\<open>out_nonlinearity\<close> is declared without a default and is
  assigned only in the branch that builds a readout; the other branch assigns
  \<^verbatim>\<open>out_size\<close> alone. When \<^verbatim>\<open>__init__\<close> has run, the \<^verbatim>\<open>Module\<close> class of Equinox
  refuses an instance one of whose fields is unset, and the constructor raises
  \<^verbatim>\<open>ValueError\<close>.
\<close>

definition SimpleStagedNetwork_init ::
  "library \<Rightarrow> nat \<Rightarrow> nat \<Rightarrow> nat option \<Rightarrow> nat option
     \<Rightarrow> (nat \<Rightarrow> nat \<Rightarrow> bool \<Rightarrow> PRNGKey \<Rightarrow> hidden_layer)
     \<Rightarrow> (nat \<Rightarrow> nat \<Rightarrow> PRNGKey \<Rightarrow> layer) \<Rightarrow> (nat \<Rightarrow> nat \<Rightarrow> PRNGKey \<Rightarrow> layer)
     \<Rightarrow> bool \<Rightarrow> nonlinearity_fn \<Rightarrow> nonlinearity_fn \<Rightarrow> real option
     \<Rightarrow> PopulationStructure option \<Rightarrow> PRNGKey \<Rightarrow> error + SimpleStagedNetwork" where
  "SimpleStagedNetwork_init lib input_size0 hidden_size0 out_size0 encoding_size0
       hidden_type encoder_type readout_type use_bias0 hidden_nonlinearity0
       out_nonlinearity0 hidden_noise_std0 population_structure0 key =
     (case jr_split3 lib key of (key1, key2, key3) \<Rightarrow>
      and_then
        (case encoding_size0 of
           Some es \<Rightarrow>
             and_then
               (case population_structure0 of
                  Some ps \<Rightarrow>
                    lift_layer (MaskedLinear_init (eqx_Linear lib) input_size0 es
                                  (ones2 es input_size0) use_bias0 key2)
                | None \<Rightarrow> Inr (encoder_type input_size0 es key2)) (\<lambda>enc.
             and_then
               (case population_structure0 of
                  Some ps \<Rightarrow>
                    mask_hidden_input (hidden_type es hidden_size0 use_bias0 key1)
                      hidden_size0 es ps
                | None \<Rightarrow> Inr (hidden_type es hidden_size0 use_bias0 key1)) (\<lambda>h.
             Inr (Some enc, Some es, h)))
         | None \<Rightarrow>
             and_then
               (case population_structure0 of
                  Some ps \<Rightarrow>
                    mask_hidden_input (hidden_type input_size0 hidden_size0 use_bias0 key1)
                      hidden_size0 input_size0 ps
                | None \<Rightarrow> Inr (hidden_type input_size0 hidden_size0 use_bias0 key1)) (\<lambda>h.
             Inr (None, None, h)))
        (\<lambda>(enc, enc_size, h).
      and_then
        (case out_size0 of
           Some os \<Rightarrow>
             and_then
               (case population_structure0 of
                  Some ps \<Rightarrow>
                    lift_layer (MaskedLinear_init (eqx_Linear lib) hidden_size0 os
                                  (set_cols (zeros2 os hidden_size0) (readout_indices ps) 1)
                                  use_bias0 key3)
                | None \<Rightarrow> Inr (readout_type hidden_size0 os key3)) (\<lambda>r.
             Inr (Some (zero_readout_bias r), Some out_nonlinearity0, Some os))
         | None \<Rightarrow> Inr (None, None, Some hidden_size0))
        (\<lambda>(r, out_nl, os).
      case out_nl of
        None \<Rightarrow> Inl ValueError
      | Some out_nonlinearity1 \<Rightarrow>
          Inr \<lparr>input_size = input_size0, hidden = h, hidden_size = hidden_size0,
               hidden_noise_std = hidden_noise_std0,
               hidden_nonlinearity = hidden_nonlinearity0,
               out_size = os, out_nonlinearity = out_nonlinearity1, readout = r,
               encoding_size = enc_size, encoder = enc,
               population_structure = population_structure0\<rparr>)))"

section \<open>Stages of the network\<close>

text \<open>
  An ordered dictionary is a list of pairs with distinct keys, in insertion order.
  \<^verbatim>\<open>d[k] = v\<close> keeps the place of a key that is present and appends a new one;
  \<^verbatim>\<open>d |= e\<close> stores the entries of \<open>e\<close> one after the other.
\<close>

definition dict_set :: "(string \<times> 'a) list \<Rightarrow> string \<Rightarrow> 'a \<Rightarrow> (string \<times> 'a) list" where
  "dict_set d k v =
     (if k \<in> set (map fst d) then map (\<lambda>(k', v'). if k' = k then (k', v) else (k', v')) d
      else d @ [(k, v)])"

definition dict_update :: "(string \<times> 'a) list \<Rightarrow> (string \<times> 'a) list \<Rightarrow> (string \<times> 'a) list" where
  "dict_update d e = fold (\<lambda>(k, v) acc. dict_set acc k v) e d"

text \<open>
  A layer applied to a field of the state: its products with the weights raise
  \<^verbatim>\<open>TypeError\<close> on \<^verbatim>\<open>None\<close>.
\<close>

definition on_array :: "(vector \<Rightarrow> error + vector) \<Rightarrow> pytree \<Rightarrow> error + pytree" where
  "on_array f x =
     (case x of None \<Rightarrow> Inl TypeError | Some a \<Rightarrow> and_then (f a) (\<lambda>y. Inr (Some y)))"

definition on_arrays2 :: "(vector \<Rightarrow> vector \<Rightarrow> error + vector) \<Rightarrow> pytree \<Rightarrow> pytree \<Rightarrow> error + pytree" where
  "on_arrays2 f x st =
     (case x of
        None \<Rightarrow> Inl TypeError
      | Some a \<Rightarrow>
          (case st of
             None \<Rightarrow> Inl TypeError
           | Some b \<Rightarrow> and_then (f a b) (\<lambda>y. Inr (Some y))))"

text \<open>
  Modelled from the spec: \<^verbatim>\<open>wrap_stateless_callable\<close> and
  \<^verbatim>\<open>wrap_stateless_keyless_callable\<close> of \<^verbatim>\<open>feedbax._model\<close>. A stateless callable is
  wrapped so that it is invoked as \<open>(stage_input, sub_state, key)\<close>: it ignores the
  sub-state and returns the transformed input; the keyless wrapper discards the key too.
\<close>

definition wrap_stateless_callable ::
  "(pytree \<Rightarrow> PRNGKey \<Rightarrow> error + pytree) \<Rightarrow> pytree \<Rightarrow> pytree \<Rightarrow> PRNGKey \<Rightarrow> error + pytree" where
  "wrap_stateless_callable f = (\<lambda>x st key. f x key)"

definition wrap_stateless_keyless_callable ::
  "(pytree \<Rightarrow> error + pytree) \<Rightarrow> pytree \<Rightarrow> pytree \<Rightarrow> PRNGKey \<Rightarrow> error + pytree" where
  "wrap_stateless_keyless_callable f = (\<lambda>x st key. f x)"

text \<open>
  The hidden layer called with one positional argument, \<^verbatim>\<open>self.hidden(input, key=key)\<close>,
  and with two, \<^verbatim>\<open>self.hidden(input, state, key=key)\<close>. A call with the wrong number of
  positional arguments raises \<^verbatim>\<open>TypeError\<close>.
\<close>

fun hidden_call1 :: "hidden_layer \<Rightarrow> vector \<Rightarrow> error + vector" where
  "hidden_call1 (Stateless l) x = Linear_call l x"
| "hidden_call1 (Leaky c) x = Inl TypeError"
| "hidden_call1 (Gated g) x = Inl TypeError"

fun hidden_call2 :: "library \<Rightarrow> hidden_layer \<Rightarrow> vector \<Rightarrow> vector \<Rightarrow> PRNGKey \<Rightarrow> error + vector" where
  "hidden_call2 lib (Leaky c) x st key = LeakyRNNCell_call (jr_normal lib) c x st key"
| "hidden_call2 lib (Gated g) x st key = eqx_GRUCell_call lib g x st"
| "hidden_call2 lib (Stateless l) x st key = Inl TypeError"

text \<open>\<^verbatim>\<open>SimpleStagedNetwork._add_hidden_noise\<close>.\<close>

definition add_hidden_noise ::
  "library \<Rightarrow> SimpleStagedNetwork \<Rightarrow> pytree \<Rightarrow> pytree \<Rightarrow> PRNGKey \<Rightarrow> error + pytree" where
  "add_hidden_noise lib self x st key =
     (case hidden_noise_std self of
        None \<Rightarrow> Inr st
      | Some std \<Rightarrow>
          (case st of
             None \<Rightarrow> Inl AttributeError
           | Some a \<Rightarrow>
               and_then (add_vec a (scale_vec std (jr_normal lib key (length a))))
                 (\<lambda>y. Inr (Some y))))"

text \<open>
  A stage: the factory of its callable (applied to the model when the stage runs), the
  selector of its input from the raw input and the state, and the selector of the field
  of the state it replaces.
  The raw input is the list of the arrays of the input tree, which
  \<^verbatim>\<open>ravel_pytree\<close> flattens into one.
\<close>

record ModelStage =
  callable :: "SimpleStagedNetwork \<Rightarrow> error + (pytree \<Rightarrow> pytree \<Rightarrow> PRNGKey \<Rightarrow> error + pytree)"
  where_input :: "vector list \<Rightarrow> NetworkState \<Rightarrow> pytree"
  where_state :: "NetworkState \<Rightarrow> pytree"

text \<open>
  \<^verbatim>\<open>SimpleStagedNetwork.model_spec\<close>. With an encoder the source assigns a new
  dictionary (\<^verbatim>\<open>spec = OrderedDict(...)\<close>), which drops the stage \<open>input\<close>; without one
  it extends the dictionary (\<^verbatim>\<open>spec |= ...\<close>). The warning it logs is left out.
\<close>

definition model_spec :: "library \<Rightarrow> SimpleStagedNetwork \<Rightarrow> (string \<times> ModelStage) list" where
  "model_spec lib self =
     (let hidden_module =
            (if n_positional_args (hidden self) = 1
             then (\<lambda>s. Inr (wrap_stateless_callable (\<lambda>x key. on_array (hidden_call1 (hidden s)) x)))
             else (\<lambda>s. Inr (\<lambda>x st key. on_arrays2 (\<lambda>a b. hidden_call2 lib (hidden s) a b key) x st)));
          spec0 =
            [(''input'',
              \<lparr>callable = (\<lambda>s. Inr (\<lambda>x st key. Inr x)),
               where_input = (\<lambda>raw _. Some (concat raw)),
               where_state = (\<lambda>state. input state)\<rparr>)];
          spec1 =
            (case encoder self of
               None \<Rightarrow>
                 dict_update spec0
                   [(''hidden'',
                     \<lparr>callable = hidden_module,
                      where_input = (\<lambda>raw state. input state),
                      where_state = (\<lambda>state. NetworkState.hidden state)\<rparr>)]
             | Some _ \<Rightarrow>
                 [(''encoder'',
                   \<lparr>callable = (\<lambda>s. Inr (\<lambda>x st key.
                                  case encoder s of
                                    None \<Rightarrow> Inl TypeError
                                  | Some e \<Rightarrow> on_array (layer_call e) x)),
                    where_input = (\<lambda>raw state. input state),
                    where_state = (\<lambda>state. encoding state)\<rparr>),
                  (''hidden'',
                   \<lparr>callable = hidden_module,
                    where_input = (\<lambda>raw state. encoding state),
                    where_state = (\<lambda>state. NetworkState.hidden state)\<rparr>)]);
          spec2 =
            dict_update spec1
              [(''hidden_nonlinearity'',
                \<lparr>callable = (\<lambda>s. Inr (wrap_stateless_keyless_callable
                                        (hidden_nonlinearity s))),
                 where_input = (\<lambda>raw state. NetworkState.hidden state),
                 where_state = (\<lambda>state. NetworkState.hidden state)\<rparr>)];
          spec3 =
            (if hidden_noise_std self \<noteq> None
             then dict_update spec2
                    [(''hidden_noise'',
                      \<lparr>callable = (\<lambda>s. Inr (add_hidden_noise lib s)),
                       where_input = (\<lambda>raw state. NetworkState.hidden state),
                       where_state = (\<lambda>state. NetworkState.hidden state)\<rparr>)]
             else spec2);
          spec4 =
            (if readout self \<noteq> None
             then dict_update spec3
                    [(''readout'',
                      \<lparr>callable = (\<lambda>s. Inr (wrap_stateless_callable (\<lambda>x key.
                                     case readout s of
                                       None \<Rightarrow> Inl TypeError
                                     | Some r \<Rightarrow> on_array (layer_call r) x))),
                       where_input = (\<lambda>raw state. NetworkState.hidden state),
                       where_state = (\<lambda>state. output' state)\<rparr>)]
             else spec3)
      in dict_update spec4
           [(''out_nonlinearity'',
             \<lparr>callable = (\<lambda>s. Inr (wrap_stateless_keyless_callable (out_nonlinearity s))),
              where_input = (\<lambda>raw state. output' state),
              where_state = (\<lambda>state. output' state)\<rparr>)])"

text \<open>\<^verbatim>\<open>SimpleStagedNetwork.init\<close>; the key is unused by the source.\<close>

definition init :: "SimpleStagedNetwork \<Rightarrow> NetworkState" where
  "init self =
     \<lparr>input = Some (zeros (input_size self)),
      hidden = Some (zeros (hidden_size self)),
      output' = (case out_size self of None \<Rightarrow> None | Some n \<Rightarrow> Some (zeros n)),
      encoding = (case encoding_size self of None \<Rightarrow> None | Some n \<Rightarrow> Some (zeros n))\<rparr>"

text \<open>
  Replacing the raw input weights of the hidden layer of a built network, as a training
  update does (\<^verbatim>\<open>eqx.tree_at(lambda m: m.hidden.weight_ih, model, w)\<close>).
\<close>

definition replace_weight_ih :: "SimpleStagedNetwork \<Rightarrow> matrix \<Rightarrow> SimpleStagedNetwork" where
  "replace_weight_ih self w = self\<lparr>hidden := set_weight_ih (hidden self) w\<rparr>"

text \<open>
  Modelled from the spec: one stage as the execution engine of \<^verbatim>\<open>feedbax._staged\<close> runs
  it. The engine selects the stage's input from the raw input and the state, selects the
  field of the state, and applies the stage's callable, built from the model, to both and
  the key; the result replaces that field.
\<close>

definition stage_result ::
  "ModelStage \<Rightarrow> SimpleStagedNetwork \<Rightarrow> vector list \<Rightarrow> NetworkState \<Rightarrow> PRNGKey \<Rightarrow> error + pytree" where
  "stage_result stage self raw state key =
     and_then (callable stage self)
       (\<lambda>f. f (where_input stage raw state) (where_state stage state) key)"

text \<open>The stage of a given label, run on a state; a label the model has no stage for raises.\<close>

definition run_stage ::
  "library \<Rightarrow> SimpleStagedNetwork \<Rightarrow> string \<Rightarrow> vector list \<Rightarrow> NetworkState \<Rightarrow> PRNGKey
     \<Rightarrow> error + pytree" where
  "run_stage lib self label raw state key =
     (case map_of (model_spec lib self) label of
        None \<Rightarrow> Inl KeyError
      | Some stage \<Rightarrow> stage_result stage self raw state key)"

section \<open>A small network, for the concrete evaluations\<close>

text \<open>
  Library functions that fix what the random draws are: every weight and every bias a fresh
  linear layer gets is a half, and the noise drawn is zero.
\<close>

definition example_library :: library where
  "example_library =
     \<lparr>jr_split3 = (\<lambda>k. (k, k + 1, k + 2)),
      jr_normal = (\<lambda>k n. replicate n 0),
      eqx_Linear = (\<lambda>i o_features b k.
         \<lparr>weight = replicate o_features (replicate i (1 / 2)),
          bias = (if b then Some (replicate o_features (1 / 2)) else None)\<rparr>),
      eqx_GRUCell_call = (\<lambda>g x h. Inr h)\<rparr>"

text \<open>Two hidden units: unit 0 receives the input only, unit 1 feeds the readout only.\<close>

definition example_structure :: PopulationStructure where
  "example_structure =
     \<lparr>n_input_only = 1, n_readout_only = 1, n_recurrent_only = 0, n_input_readout = 0,
      input_indices = [0], readout_indices = [1],
      input_only_indices = [0], readout_only_indices = [1],
      recurrent_only_indices = [], input_readout_indices = []\<rparr>"

text \<open>Hidden layer types: a gated cell and a leaky cell whose input weights are all one.\<close>

definition example_gated :: "nat \<Rightarrow> nat \<Rightarrow> bool \<Rightarrow> PRNGKey \<Rightarrow> hidden_layer" where
  "example_gated n h b k =
     Gated \<lparr>gru_weight_ih = replicate (3 * h) (replicate n 1),
            gru_weight_hh = replicate (3 * h) (replicate h 1),
            gru_bias = None, gru_bias_n = None\<rparr>"

definition example_leaky :: "nat \<Rightarrow> nat \<Rightarrow> bool \<Rightarrow> PRNGKey \<Rightarrow> hidden_layer" where
  "example_leaky n h b k =
     Leaky \<lparr>weight_hh = replicate h (replicate h 0),
            weight_ih = Weights (replicate h (replicate n 1)),
            cell_bias = None, use_bias = False, use_noise = False, noise_strength = 0,
            dt = 1, tau = 1, nonlinearity = (\<lambda>v. v)\<rparr>"

text \<open>The default encoder and readout type: the library's linear layer, with a bias.\<close>

definition example_linear :: "nat \<Rightarrow> nat \<Rightarrow> PRNGKey \<Rightarrow> layer" where
  "example_linear i o_features k = Plain (eqx_Linear example_library i o_features True k)"

text \<open>The same two units, with unit 1 written as the index \<open>- 1\<close> of the input units.\<close>

definition example_negative_structure :: PopulationStructure where
  "example_negative_structure =
     \<lparr>n_input_only = 1, n_readout_only = 1, n_recurrent_only = 0, n_input_readout = 0,
      input_indices = [- 1], readout_indices = [0],
      input_only_indices = [- 1], readout_only_indices = [0],
      recurrent_only_indices = [], input_readout_indices = []\<rparr>"

section \<open>Losses\<close>

text \<open>
  A loss is a simple term, of which the constructor of a composite reads the label only,
  or a composite: a dictionary of terms, a dictionary of weights and a label. The type
  allows composites inside composites, as Python's does.
\<close>

datatype loss =
  SimpleLoss (label: string)
| CompositeLoss (terms: "(string \<times> loss) list") (weights: "(string \<times> real) list") (label: string)

fun is_composite :: "loss \<Rightarrow> bool" where
  "is_composite (CompositeLoss ts ws l) = True"
| "is_composite (SimpleLoss l) = False"

text \<open>The arguments \<^verbatim>\<open>terms\<close> and \<^verbatim>\<open>weights\<close> of the constructor: a mapping or a sequence.\<close>

datatype terms_arg = TermsMapping "(string \<times> loss) list" | TermsSequence "loss list"

datatype weights_arg =
  WeightsMapping "(string \<times> real) list" | WeightsSequence "real list" | WeightsNone

fun arg_terms :: "terms_arg \<Rightarrow> loss list" where
  "arg_terms (TermsMapping m) = map snd m"
| "arg_terms (TermsSequence ts) = ts"

text \<open>
  The two loops that make labels unique. Each label is replaced by what
  \<^verbatim>\<open>get_unique_label\<close> of \<^verbatim>\<open>feedbax.misc\<close> (the parameter \<open>unique\<close>) returns for it and
  the labels settled so far, and is then one of the settled labels.
\<close>

fun uniquify :: "(string \<Rightarrow> string list \<Rightarrow> string) \<Rightarrow> string list \<Rightarrow> string list \<Rightarrow> string list" where
  "uniquify unique all_labels [] = all_labels"
| "uniquify unique all_labels (l # ls) = uniquify unique (all_labels @ [unique l all_labels]) ls"

text \<open>
  The loop over the composite terms (lines 256 to 274): the labels of the components get
  the group's label, or else the composite's own, as a prefix; the components and their
  weights, each multiplied by the group's weight, are appended.
\<close>

fun flatten_composites ::
  "(string \<Rightarrow> string list \<Rightarrow> string) \<Rightarrow> (string \<times> loss \<times> real) list
     \<Rightarrow> string list \<times> loss list \<times> real list \<Rightarrow> string list \<times> loss list \<times> real list" where
  "flatten_composites unique [] acc = acc"
| "flatten_composites unique ((group_label, composite_term, group_weight) # rest)
       (all_labels, all_terms, all_weights) =
     (let labels0 = map fst (terms composite_term);
          labels1 = (if group_label \<noteq> [] then map (\<lambda>l. group_label @ ''_'' @ l) labels0
                     else if label composite_term \<noteq> []
                     then map (\<lambda>l. label composite_term @ ''_'' @ l) labels0
                     else labels0)
      in flatten_composites unique rest
           (uniquify unique all_labels labels1,
            all_terms @ map snd (terms composite_term),
            all_weights @ map (\<lambda>w. group_weight * w) (map snd (weights composite_term))))"

text \<open>
  \<^verbatim>\<open>CompositeLoss.__init__\<close>. Unpacking the items of an empty mapping raises
  \<^verbatim>\<open>ValueError\<close>, as a mismatch of the numbers of terms and weights does.
\<close>

definition CompositeLoss_init ::
  "(string \<Rightarrow> string list \<Rightarrow> string) \<Rightarrow> terms_arg \<Rightarrow> weights_arg \<Rightarrow> string \<Rightarrow> bool \<Rightarrow> error + loss" where
  "CompositeLoss_init unique terms0 weights0 label0 user_labels =
     and_then
       (case terms0 of
          TermsMapping m \<Rightarrow>
            (if user_labels
             then (if m = [] then Inl ValueError else Inr (map fst m, map snd m))
             else Inr (map label (map snd m), map snd m))
        | TermsSequence ts \<Rightarrow> Inr (map label ts, ts))
       (\<lambda>(labels, ts).
     (let weight_values =
            (case weights0 of
               WeightsMapping wm \<Rightarrow> map snd wm
             | WeightsSequence ws \<Rightarrow> ws
             | WeightsNone \<Rightarrow> map (\<lambda>_. 1) ts) in
      if length ts \<noteq> length weight_values then Inl ValueError
      else
        (let tuples = zip labels (zip ts weight_values);
             simple = filter (\<lambda>(l, t, w). \<not> is_composite t) tuples;
             composite = filter (\<lambda>(l, t, w). is_composite t) tuples;
             start = (uniquify unique [] (map fst simple),
                      map (\<lambda>(l, t, w). t) simple,
                      map (\<lambda>(l, t, w). w) simple)
         in case flatten_composites unique composite start of
              (all_labels, all_terms, all_weights) \<Rightarrow>
                Inr (CompositeLoss (dict_update [] (zip all_labels all_terms))
                                   (dict_update [] (zip all_labels all_weights))
                                   label0))))"

text \<open>
  The operators of \<^verbatim>\<open>AbstractLoss\<close>, each a call of the constructor. The factor of the
  product is a scalar.
\<close>

definition loss_add :: "(string \<Rightarrow> string list \<Rightarrow> string) \<Rightarrow> loss \<Rightarrow> loss \<Rightarrow> error + loss" where
  "loss_add unique a b =
     CompositeLoss_init unique (TermsSequence [a, b]) (WeightsSequence [1, 1]) [] True"

definition loss_sub :: "(string \<Rightarrow> string list \<Rightarrow> string) \<Rightarrow> loss \<Rightarrow> loss \<Rightarrow> error + loss" where
  "loss_sub unique a b =
     CompositeLoss_init unique (TermsSequence [a, b]) (WeightsSequence [1, - 1]) [] True"

definition loss_rsub :: "(string \<Rightarrow> string list \<Rightarrow> string) \<Rightarrow> loss \<Rightarrow> loss \<Rightarrow> error + loss" where
  "loss_rsub unique a b =
     CompositeLoss_init unique (TermsSequence [a, b]) (WeightsSequence [- 1, 1]) [] True"

definition loss_neg :: "(string \<Rightarrow> string list \<Rightarrow> string) \<Rightarrow> loss \<Rightarrow> error + loss" where
  "loss_neg unique a =
     CompositeLoss_init unique (TermsSequence [a]) (WeightsSequence [- 1]) [] True"

definition loss_mul :: "(string \<Rightarrow> string list \<Rightarrow> string) \<Rightarrow> loss \<Rightarrow> real \<Rightarrow> error + loss" where
  "loss_mul unique a c =
     CompositeLoss_init unique (TermsSequence [a]) (WeightsSequence [c]) [] True"

text \<open>
  \<^verbatim>\<open>CompositeLoss.__or__\<close> is a method of composites only, and reads the dictionaries of
  its argument.
\<close>

definition loss_or :: "(string \<Rightarrow> string list \<Rightarrow> string) \<Rightarrow> loss \<Rightarrow> loss \<Rightarrow> error + loss" where
  "loss_or unique a b =
     (if \<not> is_composite a then Inl TypeError
      else if \<not> is_composite b then Inl AttributeError
      else CompositeLoss_init unique (TermsMapping (dict_update (terms a) (terms b)))
             (WeightsMapping (dict_update (weights a) (weights b))) (label b) True)"

text \<open>
  The losses a program can hold: the simple ones, what the constructor returns for terms
  that are such losses, and what the operators return for them. No term of a loss is a
  composite: \<open>one_level\<close>.
\<close>

inductive constructed :: "(string \<Rightarrow> string list \<Rightarrow> string) \<Rightarrow> loss \<Rightarrow> bool"
  for unique :: "string \<Rightarrow> string list \<Rightarrow> string" where
  simple: "constructed unique (SimpleLoss l)"
| composite:
    "\<forall>t\<in>set (arg_terms terms0). constructed unique t \<Longrightarrow>
     CompositeLoss_init unique terms0 weights0 label0 user_labels = Inr c \<Longrightarrow>
     constructed unique c"
| add: "constructed unique a \<Longrightarrow> constructed unique b \<Longrightarrow> loss_add unique a b = Inr c \<Longrightarrow>
     constructed unique c"
| sub: "constructed unique a \<Longrightarrow> constructed unique b \<Longrightarrow> loss_sub unique a b = Inr c \<Longrightarrow>
     constructed unique c"
| rsub: "constructed unique a \<Longrightarrow> constructed unique b \<Longrightarrow> loss_rsub unique a b = Inr c \<Longrightarrow>
     constructed unique c"
| neg: "constructed unique a \<Longrightarrow> loss_neg unique a = Inr c \<Longrightarrow> constructed unique c"
| mul: "constructed unique a \<Longrightarrow> loss_mul unique a k = Inr c \<Longrightarrow> constructed unique c"
| or: "constructed unique a \<Longrightarrow> constructed unique b \<Longrightarrow> loss_or unique a b = Inr c \<Longrightarrow>
     constructed unique c"

fun one_level :: "loss \<Rightarrow> bool" where
  "one_level (SimpleLoss l) = True"
| "one_level (CompositeLoss ts ws l) = list_all (\<lambda>t. \<not> is_composite t) (map snd ts)"

text \<open>The weights the constructor pairs with the terms: those given, or one for each term.\<close>

fun arg_weights :: "weights_arg \<Rightarrow> loss list \<Rightarrow> real list" where
  "arg_weights (WeightsMapping wm) ts = map snd wm"
| "arg_weights (WeightsSequence ws) ts = ws"
| "arg_weights WeightsNone ts = map (\<lambda>_. 1) ts"

text \<open>
  What a composite built from terms paired with their weights is to hold, in the words of
  the constructor's note: the simple terms, then the components of every composite term,
  in order; and with them the weights of the simple terms, then the weight of every
  component multiplied by the weight given for its parent composite.
\<close>

definition flattened_terms :: "(loss \<times> real) list \<Rightarrow> loss list" where
  "flattened_terms pairs =
     map fst (filter (\<lambda>(t, w). \<not> is_composite t) pairs)
     @ concat (map (\<lambda>(t, w). map snd (terms t)) (filter (\<lambda>(t, w). is_composite t) pairs))"

definition flattened_weights :: "(loss \<times> real) list \<Rightarrow> real list" where
  "flattened_weights pairs =
     map snd (filter (\<lambda>(t, w). \<not> is_composite t) pairs)
     @ concat (map (\<lambda>(t, w). map (\<lambda>x. w * x) (map snd (weights t)))
                   (filter (\<lambda>(t, w). is_composite t) pairs))"

text \<open>
  Modelled from the spec: \<^verbatim>\<open>get_unique_label\<close> of \<^verbatim>\<open>feedbax.misc\<close>, for the concrete
  evaluations: a label that is taken gets the lowest integer suffix that makes it unique
  (here among the first three).
\<close>

definition example_unique :: "string \<Rightarrow> string list \<Rightarrow> string" where
  "example_unique l taken =
     (if l \<notin> set taken then l
      else if l @ ''_0'' \<notin> set taken then l @ ''_0''
      else if l @ ''_1'' \<notin> set taken then l @ ''_1''
      else l @ ''_2'')"

section \<open>Theorems\<close>

lemma same_shape_length: "same_shape a b \<Longrightarrow> length a = length b"
  by (simp add: same_shape_def list_all2_lengthD)






subsection \<open>LeakyRNNCell\<close>

lemma noise_std_raises: "noise_std self = Inl TypeError"
  by (simp add: noise_std_def)

lemma map2_add_zeros: "length v = n \<Longrightarrow> map2 (+) v (replicate n (0::real)) = v"
  by (intro nth_equalityI) simp_all

lemma leaky_update_noise_free:
  assumes "\<not> use_noise self" and "tau self \<noteq> 0"
    and "dot_weight_ih (weight_ih self) x = Inr ih"
    and "dot_mat_vec (weight_hh self) state = Inr hh"
    and "length ih = length hh" and "length state = length hh"
    and "if use_bias self then cell_bias self = Some b \<and> length b = length hh
         else b = replicate (length hh) 0"
    and "length (nonlinearity self (map2 (+) (map2 (+) ih hh) b)) = length hh"
  shows "LeakyRNNCell_call normal self x state key =
           Inr (map2 (+) (scale_vec (1 - dt self / tau self) state)
                  (scale_vec (dt self / tau self)
                     (nonlinearity self (map2 (+) (map2 (+) ih hh) b))))"
proof -
  have a: "alpha self = Inr (dt self / tau self)"
    using assms(2) by (simp add: alpha_def alpha_body_def)
  have s1: "add_vec ih hh = Inr (map2 (+) ih hh)"
    using assms(5) by (simp add: add_vec_def)
  have s2: "add_pyval (map2 (+) ih hh)
              (if use_bias self then (case cell_bias self of None \<Rightarrow> PyNone | Some b \<Rightarrow> Array b)
               else Scalar 0) = Inr (map2 (+) (map2 (+) ih hh) b)"
  proof (cases "use_bias self")
    case True
    then show ?thesis using assms(5,7) by (simp add: add_vec_def)
  next
    case False
    then have "b = replicate (length hh) 0" using assms(7) by simp
    then show ?thesis using False assms(5) by (simp add: map2_add_zeros)
  qed
  have s3: "add_pyval (map2 (+) (map2 (+) ih hh) b) (Scalar 0) = Inr (map2 (+) (map2 (+) ih hh) b)"
    by simp
  have len: "length (scale_vec (1 - dt self / tau self) state)
             = length (scale_vec (dt self / tau self) (nonlinearity self (map2 (+) (map2 (+) ih hh) b)))"
    using assms(6,8) by (simp add: scale_vec_def)
  have fin: "add_vec (scale_vec (1 - dt self / tau self) state)
               (scale_vec (dt self / tau self) (nonlinearity self (map2 (+) (map2 (+) ih hh) b)))
             = Inr (map2 (+) (scale_vec (1 - dt self / tau self) state)
                  (scale_vec (dt self / tau self)
                     (nonlinearity self (map2 (+) (map2 (+) ih hh) b))))"
    using len by (simp add: add_vec_def)
  show ?thesis
    unfolding LeakyRNNCell_call_def Let_def
    by (simp only: assms(1,3,4) a s1 s2 s3 fin and_then_def if_False sum.case)
qed

lemma vdot_zeros: "vdot (replicate n 0) x = 0"
proof -
  have "map2 (*) (replicate n (0::real)) x = replicate (min n (length x)) 0"
    by (intro nth_equalityI) simp_all
  then show ?thesis by (simp add: vdot_def sum_list_replicate)
qed

lemma map2_add_zeros_left: "length v = n \<Longrightarrow> map2 (+) (replicate n (0::real)) v = v"
  by (intro nth_equalityI) simp_all

text \<open>
  The update of a cell whose noise is disabled. When the time constant is not zero and the
  shapes fit, \<open>LeakyRNNCell_call\<close> returns
  \<open>(1 - \<alpha>) * state + \<alpha> * nonlinearity (W_ih input + W_hh state + bias)\<close> with
  \<open>\<alpha> = dt / tau\<close>; the bias is the zero vector when \<open>use_bias\<close> is off.
\<close>

theorem LeakyRNNCell_call_without_noise:
  assumes "\<not> use_noise self" and "tau self \<noteq> 0"
    and "dot_weight_ih (weight_ih self) x = Inr ih"
    and "dot_mat_vec (weight_hh self) state = Inr hh"
    and "length ih = length hh" and "length state = length hh"
    and "if use_bias self then cell_bias self = Some b \<and> length b = length hh
         else b = replicate (length hh) 0"
    and "length (nonlinearity self (map2 (+) (map2 (+) ih hh) b)) = length hh"
  shows "LeakyRNNCell_call normal self x state key =
           Inr (map2 (+) (scale_vec (1 - dt self / tau self) state)
                  (scale_vec (dt self / tau self)
                     (nonlinearity self (map2 (+) (map2 (+) ih hh) b))))"
  using assms by (rule leaky_update_noise_free)

theorem LeakyRNNCell_call_without_noise_witness:
  "LeakyRNNCell_call (\<lambda>k n. replicate n 0)
       \<lparr>weight_hh = [[2, 1], [0, 3]], weight_ih = Weights [[1], [2]], cell_bias = Some [1, 1],
        use_bias = True, use_noise = False, noise_strength = 0, dt = 1, tau = 2,
        nonlinearity = map (\<lambda>x. 2 * x)\<rparr> [3] [1, 2] 0 = Inr [17 / 2, 14]"
proof -
  let ?c = "\<lparr>weight_hh = [[2, 1], [0, 3]], weight_ih = Weights [[1], [2]], cell_bias = Some [1, 1],
        use_bias = True, use_noise = False, noise_strength = 0, dt = 1, tau = 2,
        nonlinearity = map (\<lambda>x. 2 * x)\<rparr>"
  have "LeakyRNNCell_call (\<lambda>k n. replicate n 0) ?c [3] [1, 2] 0 =
           Inr (map2 (+) (scale_vec (1 - dt ?c / tau ?c) [1, 2])
                  (scale_vec (dt ?c / tau ?c)
                     (nonlinearity ?c (map2 (+) (map2 (+) [3, 6] [4, 6]) [1, 1]))))"
    by (rule LeakyRNNCell_call_without_noise)
       (simp_all add: dot_mat_vec_def vdot_def)
  then show ?thesis by (simp add: scale_vec_def)
qed

text \<open>
  The literal test of the update: with \<open>dt = tau = 1\<close>, the identity as nonlinearity, no
  bias, no noise and an input weight matrix of zeros, the returned state is
  \<open>W_hh state\<close> exactly.
\<close>

theorem LeakyRNNCell_call_literal_test:
  assumes "dt self = 1" and "tau self = 1" and "nonlinearity self = (\<lambda>v. v)"
    and "\<not> use_bias self" and "\<not> use_noise self"
    and "weight_ih self = Weights (zeros2 (length state) (length x))"
    and "length (weight_hh self) = length state"
    and "list_all (\<lambda>r. length r = length state) (weight_hh self)"
  shows "LeakyRNNCell_call normal self x state key
           = Inr (map (\<lambda>r. vdot r state) (weight_hh self))"
proof -
  let ?hh = "map (\<lambda>r. vdot r state) (weight_hh self)"
  let ?z = "replicate (length ?hh) (0::real)"
  have ih: "dot_weight_ih (weight_ih self) x = Inr ?z"
    using assms(6,7) by (simp add: dot_mat_vec_def zeros2_def list_all_iff vdot_zeros)
  have hh: "dot_mat_vec (weight_hh self) state = Inr ?hh"
    using assms(8) by (simp add: dot_mat_vec_def)
  have sum: "map2 (+) (map2 (+) ?z ?hh) ?z = ?hh"
    by (simp add: map2_add_zeros map2_add_zeros_left)
  have "LeakyRNNCell_call normal self x state key =
           Inr (map2 (+) (scale_vec (1 - dt self / tau self) state)
                  (scale_vec (dt self / tau self)
                     (nonlinearity self (map2 (+) (map2 (+) ?z ?hh) ?z))))"
  proof (rule leaky_update_noise_free[OF assms(5) _ ih hh])
    show "tau self \<noteq> 0" using assms(2) by simp
    show "length ?z = length ?hh" by simp
    show "length state = length ?hh" using assms(7) by simp
    show "if use_bias self then cell_bias self = Some ?z \<and> length ?z = length ?hh
          else ?z = replicate (length ?hh) 0" using assms(4) by simp
    show "length (nonlinearity self (map2 (+) (map2 (+) ?z ?hh) ?z)) = length ?hh"
      by (simp only: sum assms(3))
  qed
  also have "\<dots> = Inr ?hh"
  proof -
    have "map2 (+) (scale_vec 0 state) (scale_vec 1 ?hh) = ?hh"
      using assms(7) by (intro nth_equalityI) (simp_all add: scale_vec_def)
    then show ?thesis by (simp only: sum assms(1,2,3)) simp
  qed
  finally show ?thesis .
qed

theorem LeakyRNNCell_call_literal_test_witness:
  "LeakyRNNCell_call (\<lambda>k n. replicate n 0)
       \<lparr>weight_hh = [[2, 1], [0, 3]], weight_ih = Weights [[0], [0]], cell_bias = None,
        use_bias = False, use_noise = False, noise_strength = 0, dt = 1, tau = 1,
        nonlinearity = (\<lambda>v. v)\<rparr> [7] [1, 2] 0 = Inr [4, 6]"
  using LeakyRNNCell_call_literal_test [of
       "\<lparr>weight_hh = [[2, 1], [0, 3]], weight_ih = Weights [[0], [0]], cell_bias = None,
        use_bias = False, use_noise = False, noise_strength = 0, dt = 1, tau = 1,
        nonlinearity = (\<lambda>v. v)\<rparr>" "[1, 2]" "[7]" "\<lambda>k n. replicate n 0" 0]
  by (simp add: zeros2_def vdot_def)

text \<open>
  Claim C9. With \<open>use_noise\<close> on, \<^verbatim>\<open>__call__\<close> reads \<^verbatim>\<open>self.noise_std\<close>. The cached
  property is declared with a second parameter \<^verbatim>\<open>noise_strength\<close>, so reading it raises
  \<^verbatim>\<open>TypeError\<close>: no noise of any standard deviation is added, and every call of a cell
  built with \<open>use_noise = True\<close> fails before the update is computed.
\<close>

theorem LeakyRNNCell_call_with_noise_raises:
  "use_noise self \<Longrightarrow> LeakyRNNCell_call normal self x state key = Inl TypeError"
  by (simp add: LeakyRNNCell_call_def and_then_def noise_std_def)

theorem LeakyRNNCell_call_with_noise_raises_witness:
  "use_noise \<lparr>weight_hh = [[2]], weight_ih = Weights [[0]], cell_bias = None, use_bias = False,
       use_noise = True, noise_strength = 1 / 100, dt = 1, tau = 1, nonlinearity = (\<lambda>v. v)\<rparr>
   \<and> LeakyRNNCell_call (\<lambda>k n. replicate n 0)
       \<lparr>weight_hh = [[2]], weight_ih = Weights [[0]], cell_bias = None, use_bias = False,
        use_noise = True, noise_strength = 1 / 100, dt = 1, tau = 1, nonlinearity = (\<lambda>v. v)\<rparr>
       [1] [3] 0 = Inl TypeError"
  using LeakyRNNCell_call_with_noise_raises [of
       "\<lparr>weight_hh = [[2]], weight_ih = Weights [[0]], cell_bias = None, use_bias = False,
        use_noise = True, noise_strength = 1 / 100, dt = 1, tau = 1, nonlinearity = (\<lambda>v. v)\<rparr>"
       "\<lambda>k n. replicate n 0" "[1]" "[3]" 0]
  by simp

text \<open>
  Claim C8. The update formula is stated for every cell, the noise term included. On a
  cell with the noise enabled (one hidden unit, \<open>W_hh = [[2]]\<close>, \<open>W_ih = [[0]]\<close>,
  \<open>dt = tau = 1\<close>, identity, no bias, noise strength zero) the formula gives \<open>[6]\<close> at
  state \<open>[3]\<close>, and \<open>LeakyRNNCell_call\<close> returns no state: it raises \<^verbatim>\<open>TypeError\<close>. The
  same cell with the noise disabled returns \<open>[6]\<close>.
\<close>

theorem LeakyRNNCell_call_noise_enabled_no_state:
  "LeakyRNNCell_call (\<lambda>k n. replicate n 0)
       \<lparr>weight_hh = [[2]], weight_ih = Weights [[0]], cell_bias = None, use_bias = False,
        use_noise = True, noise_strength = 0, dt = 1, tau = 1, nonlinearity = (\<lambda>v. v)\<rparr>
       [1] [3] 0 = Inl TypeError
   \<and> LeakyRNNCell_call (\<lambda>k n. replicate n 0)
       \<lparr>weight_hh = [[2]], weight_ih = Weights [[0]], cell_bias = None, use_bias = False,
        use_noise = False, noise_strength = 0, dt = 1, tau = 1, nonlinearity = (\<lambda>v. v)\<rparr>
       [1] [3] 0 = Inr [6]"
  by (simp add: LeakyRNNCell_call_def and_then_def noise_std_def alpha_def alpha_body_def
      dot_mat_vec_def vdot_def add_vec_def scale_vec_def)

subsection \<open>PopulationStructure\<close>

lemma slice_bound_nonneg: "0 \<le> a \<Longrightarrow> a \<le> int n \<Longrightarrow> slice_bound n a = nat a"
  by (simp add: slice_bound_def)

lemma default_slices_concat:
  assumes "0 \<le> a" "0 \<le> b" "0 \<le> c" "0 \<le> d" "a + b + c + d = int (length xs)"
  shows "py_slice_to xs a @ py_slice xs a (a + b) @ py_slice xs (a + b) (a + b + c)
           @ py_slice_from xs (a + b + c) = xs"
proof -
  have 1: "slice_bound (length xs) a = nat a" using assms by (simp add: slice_bound_nonneg)
  have 2: "slice_bound (length xs) (a + b) = nat a + nat b"
    using assms by (simp add: slice_bound_nonneg nat_add_distrib)
  have 3: "slice_bound (length xs) (a + b + c) = nat a + nat b + nat c"
    using assms by (simp add: slice_bound_nonneg nat_add_distrib)
  have t: "\<And>k m ys. take k (drop m ys) @ drop (m + k) ys = drop m (ys::'a list)"
    by (metis add.commute append_take_drop_id drop_drop)
  have "py_slice xs (a + b) (a + b + c) @ py_slice_from xs (a + b + c) = drop (nat a + nat b) xs"
    unfolding py_slice_def py_slice_from_def 2 3 using t[of "nat c" "nat a + nat b" xs] by simp
  moreover have "py_slice xs a (a + b) @ drop (nat a + nat b) xs = drop (nat a) xs"
    unfolding py_slice_def 1 2 using t[of "nat b" "nat a" xs] by simp
  ultimately show ?thesis
    unfolding py_slice_to_def 1 by simp
qed

lemma partition_of_concat:
  assumes "distinct (io @ ro @ rc @ ir)" and "set (io @ ro @ rc @ ir) = {0..<h}"
  shows "partitions_units \<lparr>n_input_only = a, n_readout_only = b, n_recurrent_only = c,
                  n_input_readout = d,
                  input_indices = io @ ir, readout_indices = ro @ ir,
                  input_only_indices = io, readout_only_indices = ro,
                  recurrent_only_indices = rc, input_readout_indices = ir\<rparr> h"
  using assms unfolding partitions_units_def by (simp add: Un_assoc) blast

lemma arange_concat: "a \<le> b \<Longrightarrow> b \<le> c \<Longrightarrow> arange a b @ arange b c = arange a c"
  unfolding arange_def
  by (metis add.commute add_diff_cancel_left' diff_add_cancel upto_split1 zle_diff1_eq upto_rec1 order_refl
      upto_split2 upto_empty append_Nil2 not_le)

lemma arange_set: "set (arange 0 h) = {0..<h}"
  by (auto simp: arange_def)

lemma arange_distinct: "distinct (arange a b)"
  by (simp add: arange_def)

lemma arange_length: "length (arange 0 h) = nat h"
  by (simp add: arange_def)

text \<open>
  Claim C3, as the code has it. \<open>create\<close> raises \<^verbatim>\<open>ValueError\<close> whenever the four sizes
  do not sum to \<open>hidden_size\<close>, whatever the assignment function. When they do, the sizes
  are not negative and the assignment is the default one (slices of a permutation of
  \<open>0, \<dots>, hidden_size - 1\<close>) or \<open>contiguous_assignment\<close>, the structure is returned and
  its four index sets are pairwise disjoint with union \<open>{0, \<dots>, hidden_size - 1}\<close>.
\<close>

theorem create_partitions_hidden_units:
  assumes perm: "distinct (jr_permutation key n_hidden)
                \<and> set (jr_permutation key n_hidden) = {0..<n_hidden}"
  shows "(n_io + n_ro + n_rec + n_ir \<noteq> n_hidden \<longrightarrow>
            create jr_permutation n_hidden n_io n_ro n_rec n_ir assignment_fn key
              = Inl ValueError)
       \<and> (n_io + n_ro + n_rec + n_ir = n_hidden
            \<and> 0 \<le> n_io \<and> 0 \<le> n_ro \<and> 0 \<le> n_rec \<and> 0 \<le> n_ir
            \<and> (assignment_fn = None \<or> assignment_fn = Some contiguous_assignment) \<longrightarrow>
            (\<exists>ps. create jr_permutation n_hidden n_io n_ro n_rec n_ir assignment_fn key
                    = Inr ps
                  \<and> partitions_units ps n_hidden))"
proof (intro conjI impI)
  assume "n_io + n_ro + n_rec + n_ir \<noteq> n_hidden"
  then show "create jr_permutation n_hidden n_io n_ro n_rec n_ir assignment_fn key
              = Inl ValueError"
    by (simp add: create_def)
next
  assume a: "n_io + n_ro + n_rec + n_ir = n_hidden
            \<and> 0 \<le> n_io \<and> 0 \<le> n_ro \<and> 0 \<le> n_rec \<and> 0 \<le> n_ir
            \<and> (assignment_fn = None \<or> assignment_fn = Some contiguous_assignment)"
  then have total: "n_io + n_ro + n_rec + n_ir = n_hidden"
    and nn: "0 \<le> n_io" "0 \<le> n_ro" "0 \<le> n_rec" "0 \<le> n_ir"
    and fn: "assignment_fn = None \<or> assignment_fn = Some contiguous_assignment"
    by simp_all
  let ?xs = "jr_permutation key n_hidden"
  from fn show "\<exists>ps. create jr_permutation n_hidden n_io n_ro n_rec n_ir assignment_fn key
                    = Inr ps \<and> partitions_units ps n_hidden"
  proof
    assume none: "assignment_fn = None"
    have d: "distinct ?xs" and s: "set ?xs = {0..<n_hidden}" using perm by simp_all
    have "length ?xs = card {0..<n_hidden}" using distinct_card[OF d] s by simp
    then have len: "int (length ?xs) = n_hidden"
      using total nn by simp
    have cat: "py_slice_to ?xs n_io @ py_slice ?xs n_io (n_io + n_ro)
                 @ py_slice ?xs (n_io + n_ro) (n_io + n_ro + n_rec)
                 @ py_slice_from ?xs (n_io + n_ro + n_rec) = ?xs"
      using default_slices_concat[OF nn, of ?xs] total len by simp
    show ?thesis
      using total none partition_of_concat[of "py_slice_to ?xs n_io"
          "py_slice ?xs n_io (n_io + n_ro)" "py_slice ?xs (n_io + n_ro) (n_io + n_ro + n_rec)"
          "py_slice_from ?xs (n_io + n_ro + n_rec)" n_hidden n_io n_ro n_rec n_ir] d s
      by (simp only: cat) (simp add: create_def Let_def)
  next
    assume cont: "assignment_fn = Some contiguous_assignment"
    have cat: "arange 0 n_io @ arange n_io (n_io + n_ro)
                 @ arange (n_io + n_ro) (n_io + n_ro + n_rec)
                 @ arange (n_io + n_ro + n_rec) n_hidden = arange 0 n_hidden"
      using nn total by (simp add: arange_concat)
    show ?thesis
      using total cont partition_of_concat[of "arange 0 n_io"
          "arange n_io (n_io + n_ro)" "arange (n_io + n_ro) (n_io + n_ro + n_rec)"
          "arange (n_io + n_ro + n_rec) n_hidden" n_hidden n_io n_ro n_rec n_ir]
        arange_distinct[of 0 n_hidden] arange_set[of n_hidden]
      by (simp only: cat) (simp add: create_def Let_def contiguous_assignment_def)
  qed
qed

lemma arange_0_3: "arange 0 3 = [0, 1, 2]"
  by (simp add: arange_def upto.simps)

theorem create_partitions_hidden_units_witness:
  "create (\<lambda>k n. rev (arange 0 n)) 3 1 1 0 1 None 0
     = Inr \<lparr>n_input_only = 1, n_readout_only = 1, n_recurrent_only = 0, n_input_readout = 1,
            input_indices = [2, 0], readout_indices = [1, 0],
            input_only_indices = [2], readout_only_indices = [1],
            recurrent_only_indices = [], input_readout_indices = [0]\<rparr>
   \<and> partitions_units
         \<lparr>n_input_only = 1, n_readout_only = 1, n_recurrent_only = 0, n_input_readout = 1,
          input_indices = [2, 0], readout_indices = [1, 0],
          input_only_indices = [2], readout_only_indices = [1],
          recurrent_only_indices = [], input_readout_indices = [0]\<rparr> 3
   \<and> create (\<lambda>k n. rev (arange 0 n)) 3 1 1 0 0 None 0 = Inl ValueError"
proof -
  let ?p = "\<lambda>(k::PRNGKey) n. rev (arange 0 n)"
  have perm: "distinct (?p 0 3) \<and> set (?p 0 3) = {0..<3}"
    by (simp add: arange_distinct arange_set)
  have val: "create ?p 3 1 1 0 1 None 0
     = Inr \<lparr>n_input_only = 1, n_readout_only = 1, n_recurrent_only = 0, n_input_readout = 1,
            input_indices = [2, 0], readout_indices = [1, 0],
            input_only_indices = [2], readout_only_indices = [1],
            recurrent_only_indices = [], input_readout_indices = [0]\<rparr>"
    by (simp add: create_def arange_0_3 py_slice_def py_slice_to_def py_slice_from_def
        slice_bound_def)
  from create_partitions_hidden_units[of ?p 0 3 1 1 0 1 None, OF perm]
       create_partitions_hidden_units[of ?p 0 3 1 1 0 0 None, OF perm] val
  show ?thesis by simp
qed

text \<open>
  Claim C3 as stated fails for a user-supplied assignment function: \<open>create\<close> stores the
  four arrays it returns without checking them. With \<open>hidden_size = 2\<close> and sizes
  \<open>1, 1, 0, 0\<close>, a function that returns unit \<open>0\<close> twice is accepted; the sets overlap
  and unit \<open>1\<close> is in none.
\<close>

theorem create_custom_assignment_overlap:
  "create (\<lambda>k n. arange 0 n) 2 1 1 0 0 (Some (\<lambda>h a b c d k. ([0], [0], [], []))) 0
     = Inr \<lparr>n_input_only = 1, n_readout_only = 1, n_recurrent_only = 0, n_input_readout = 0,
            input_indices = [0], readout_indices = [0],
            input_only_indices = [0], readout_only_indices = [0],
            recurrent_only_indices = [], input_readout_indices = []\<rparr>
   \<and> \<not> partitions_units
         \<lparr>n_input_only = 1, n_readout_only = 1, n_recurrent_only = 0, n_input_readout = 0,
          input_indices = [0], readout_indices = [0],
          input_only_indices = [0], readout_only_indices = [0],
          recurrent_only_indices = [], input_readout_indices = []\<rparr> 2"
  by (simp add: create_def partitions_units_def)

text \<open>
  Negative sizes that sum to \<open>hidden_size\<close> pass the check too, and the default slices
  then overlap: unit \<open>0\<close> is input-only and recurrent-only at once.
\<close>

lemma create_negative_size_overlap:
  "create (\<lambda>k n. arange 0 n) 2 1 (- 1) 2 0 None 0
     = Inr \<lparr>n_input_only = 1, n_readout_only = - 1, n_recurrent_only = 2, n_input_readout = 0,
            input_indices = [0], readout_indices = [],
            input_only_indices = [0], readout_only_indices = [],
            recurrent_only_indices = [0, 1], input_readout_indices = []\<rparr>"
  by (simp add: create_def arange_def upto.simps py_slice_def py_slice_to_def py_slice_from_def
        slice_bound_def)

lemma arange_6: "arange 0 2 = [0, 1] \<and> arange 2 4 = [2, 3] \<and> arange 4 5 = [4] \<and> arange 5 6 = [5]"
  by (simp add: arange_def upto.simps)

text \<open>
  The scenario of six units with sizes \<open>2, 2, 1, 1\<close> and the contiguous assignment:
  \<open>input_indices\<close> is \<open>0, 1, 5\<close> and \<open>readout_indices\<close> is \<open>2, 3, 5\<close>.
\<close>

theorem create_contiguous_scenario:
  "create jr_permutation 6 2 2 1 1 (Some contiguous_assignment) key
     = Inr \<lparr>n_input_only = 2, n_readout_only = 2, n_recurrent_only = 1, n_input_readout = 1,
            input_indices = [0, 1, 5], readout_indices = [2, 3, 5],
            input_only_indices = [0, 1], readout_only_indices = [2, 3],
            recurrent_only_indices = [4], input_readout_indices = [5]\<rparr>"
  by (simp add: create_def contiguous_assignment_def arange_6)

subsection \<open>SimpleStagedNetwork\<close>

lemma init_hidden_is_masked:
  assumes "SimpleStagedNetwork_init lib isz hsz osz esz hidden_type encoder_type readout_type
             ub hnl onl hns (Some ps) key = Inr net"
  shows "mask_hidden_input
           (hidden_type (case esz of None \<Rightarrow> isz | Some es \<Rightarrow> es) hsz ub (fst (jr_split3 lib key)))
           hsz (case esz of None \<Rightarrow> isz | Some es \<Rightarrow> es) ps = Inr (hidden net)"
  using assms
  by (auto simp: SimpleStagedNetwork_init_def and_then_def
           split: prod.splits option.splits sum.splits)

lemma set_rows_zeros_length: "length (set_rows (zeros2 h c) idx v) = h"
  by (simp add: set_rows_def zeros2_def)

lemma set_rows_zeros_nth:
  assumes "i < h"
  shows "set_rows (zeros2 h c) idx v ! i
         = (if int i \<in> set (map (normalize_index h) idx) then replicate c v else replicate c 0)"
  using assms by (simp add: set_rows_def zeros2_def nth_enumerate_eq)

lemma tile3_nth:
  assumes "length m = h" and "i < h" and "g < 3"
  shows "tile3 m ! (i + g * h) = m ! i" and "i + g * h < length (tile3 m)"
proof -
  have g: "g = 0 \<or> g = 1 \<or> g = 2" using assms(3) by linarith
  then show "tile3 m ! (i + g * h) = m ! i"
    using assms(1,2) by (auto simp: tile3_def nth_append)
  from g show "i + g * h < length (tile3 m)"
    using assms(1,2) by (auto simp: tile3_def)
qed

lemma mul_elementwise_zero_row:
  assumes "mul_elementwise w m = Inr w'" and "r < length m" and "m ! r = replicate c 0"
  shows "\<forall>x\<in>set (w' ! r). x = 0"
proof -
  have sh: "same_shape w m" and w': "w' = map2 (map2 (*)) w m"
    using assms(1) by (auto simp: mul_elementwise_def split: if_splits)
  have len: "length w = length m" using sh by (rule same_shape_length)
  have row: "w' ! r = map2 (*) (w ! r) (replicate c 0)"
    using w' assms(2,3) len by simp
  show ?thesis unfolding row by (auto simp: set_zip)
qed

lemma getattr_set_weight_ih:
  "getattr_weight_ih h = Some v \<Longrightarrow> getattr_weight_ih (set_weight_ih h w) = Some (Weights w)"
  by (cases h) simp_all

lemma mul_elementwise_length:
  "mul_elementwise w m = Inr w' \<Longrightarrow> length w' = length m"
  by (auto simp: mul_elementwise_def same_shape_def list_all2_lengthD split: if_splits)

lemmas example_defs = example_library_def example_structure_def example_gated_def
  example_leaky_def example_linear_def

lemmas init_eval = SimpleStagedNetwork_init_def and_then_def mask_hidden_input_def
  MaskedLinear_init_def lift_layer_def zero_readout_bias_def mul_elementwise_def
  same_shape_def set_rows_def set_cols_def zeros2_def ones2_def zeros_def tile3_def
  normalize_index_def eval_nat_numeral

lemma dict_update_fresh:
  "k \<notin> set (map fst d) \<Longrightarrow> dict_update d [(k, v)] = d @ [(k, v)]"
  by (simp add: dict_update_def dict_set_def)


lemma set_rows_undesignated_row:
  assumes "i < h" and "int i \<notin> set (map (normalize_index h) idx)"
  shows "set_rows (zeros2 h c) idx v ! i = replicate c 0"
  using assms by (simp add: set_rows_zeros_nth)

text \<open>
  Claim C5, as the code has it. A network is built with a population structure, and the
  hidden layer that \<open>hidden_type\<close> returns has an input weight matrix \<open>w0\<close> of
  \<open>3 * hidden_size\<close> rows, with or without an encoder. Then the built layer's
  \<open>weight_ih\<close> is \<open>w0\<close> times the mask tiled three times along the rows, and for every
  hidden unit \<open>i\<close> that no entry of \<open>input_indices\<close> designates, the rows \<open>i\<close>,
  \<open>i + hidden_size\<close> and \<open>i + 2 * hidden_size\<close> are entirely zero. An entry that is not
  negative designates the unit of that index, and a negative entry \<open>k\<close> the unit
  \<open>k + hidden_size\<close>.
\<close>

theorem gated_hidden_input_mask_is_tiled:
  assumes built: "SimpleStagedNetwork_init lib isz hsz osz esz hidden_type encoder_type
                    readout_type ub hnl onl hns (Some ps) key = Inr net"
    and attr: "getattr_weight_ih
                 (hidden_type (case esz of None \<Rightarrow> isz | Some es \<Rightarrow> es) hsz ub
                    (fst (jr_split3 lib key))) = Some (Weights w0)"
    and gated: "length w0 = 3 * hsz"
  shows "\<exists>w. getattr_weight_ih (hidden net) = Some (Weights w)
            \<and> mul_elementwise w0
                 (tile3 (set_rows (zeros2 hsz (case esz of None \<Rightarrow> isz | Some es \<Rightarrow> es))
                           (input_indices ps) 1)) = Inr w
            \<and> length w = 3 * hsz
            \<and> (\<forall>i<hsz. int i \<notin> set (map (normalize_index hsz) (input_indices ps)) \<longrightarrow>
                  (\<forall>g<3. \<forall>x\<in>set (w ! (i + g * hsz)). x = 0))"
proof -
  let ?n = "case esz of None \<Rightarrow> isz | Some es \<Rightarrow> es"
  let ?h0 = "hidden_type ?n hsz ub (fst (jr_split3 lib key))"
  let ?M = "set_rows (zeros2 hsz ?n) (input_indices ps) 1"
  have "mask_hidden_input ?h0 hsz ?n ps = Inr (hidden net)"
    using built by (rule init_hidden_is_masked)
  then obtain w where w: "mul_elementwise w0 (tile3 ?M) = Inr w"
    and h: "hidden net = set_weight_ih ?h0 w"
    using attr gated
    by (auto simp: mask_hidden_input_def and_then_def split: sum.splits)
  have lenM: "length ?M = hsz" by (rule set_rows_zeros_length)
  have len: "length w = 3 * hsz"
    using mul_elementwise_length[OF w] lenM by (simp add: tile3_def)
  have zero: "\<forall>i<hsz. int i \<notin> set (map (normalize_index hsz) (input_indices ps)) \<longrightarrow>
                  (\<forall>g<3::nat. \<forall>x\<in>set (w ! (i + g * hsz)). x = 0)"
  proof (intro allI impI)
    fix i g :: nat
    assume i: "i < hsz"
      and out: "int i \<notin> set (map (normalize_index hsz) (input_indices ps))"
      and g: "g < 3"
    have "tile3 ?M ! (i + g * hsz) = replicate ?n 0"
      using tile3_nth(1)[OF lenM i g] set_rows_undesignated_row[OF i out] by simp
    then show "\<forall>x\<in>set (w ! (i + g * hsz)). x = 0"
      using mul_elementwise_zero_row[OF w tile3_nth(2)[OF lenM i g]] by blast
  qed
  show ?thesis
    using getattr_set_weight_ih[OF attr, of w] h w len zero by auto
qed

lemma example_gated_built:
  "SimpleStagedNetwork_init example_library 1 2 (Some 1) None example_gated example_linear
       example_linear False identity_func identity_func None (Some example_structure) 0
   = Inr \<lparr>input_size = 1,
          hidden = Gated \<lparr>gru_weight_ih = [[1], [0], [1], [0], [1], [0]],
                          gru_weight_hh = replicate 6 [1, 1],
                          gru_bias = None, gru_bias_n = None\<rparr>,
          hidden_size = 2, hidden_noise_std = None, hidden_nonlinearity = identity_func,
          out_size = Some 1, out_nonlinearity = identity_func,
          readout = Some (Masked \<lparr>linear = \<lparr>weight = [[0, 1 / 2]], bias = None\<rparr>,
                                  mask = [[0, 1]]\<rparr>),
          encoding_size = None, encoder = None,
          population_structure = Some example_structure\<rparr>"
  by (simp add: init_eval example_defs)

theorem gated_hidden_input_mask_is_tiled_witness:
  "\<exists>net. SimpleStagedNetwork_init example_library 1 2 (Some 1) None example_gated
            example_linear example_linear False identity_func identity_func None
            (Some example_structure) 0 = Inr net
        \<and> getattr_weight_ih (hidden net) = Some (Weights [[1], [0], [1], [0], [1], [0]])"
proof -
  have attr: "getattr_weight_ih
                 (example_gated (case None of None \<Rightarrow> 1 | Some es \<Rightarrow> es) 2 False
                    (fst (jr_split3 example_library 0))) = Some (Weights (replicate 6 [1]))"
    by (simp add: example_gated_def)
  have gated: "length (replicate 6 [1::real]) = 3 * 2" by simp
  have msk: "mul_elementwise (replicate 6 [1])
               (tile3 (set_rows (zeros2 2 (case None of None \<Rightarrow> 1 | Some es \<Rightarrow> es))
                         (input_indices example_structure) 1))
             = Inr [[1], [0], [1], [0], [1], [0]]"
    by (simp add: init_eval example_structure_def)
  from gated_hidden_input_mask_is_tiled[OF example_gated_built attr gated] msk
  obtain w where "getattr_weight_ih (hidden
       \<lparr>input_size = 1,
          hidden = Gated \<lparr>gru_weight_ih = [[1], [0], [1], [0], [1], [0]],
                          gru_weight_hh = replicate 6 [1, 1],
                          gru_bias = None, gru_bias_n = None\<rparr>,
          hidden_size = 2, hidden_noise_std = None, hidden_nonlinearity = identity_func,
          out_size = Some 1, out_nonlinearity = identity_func,
          readout = Some (Masked \<lparr>linear = \<lparr>weight = [[0, 1 / 2]], bias = None\<rparr>,
                                  mask = [[0, 1]]\<rparr>),
          encoding_size = None, encoder = None,
          population_structure = Some example_structure\<rparr>) = Some (Weights w)"
    and "w = [[1], [0], [1], [0], [1], [0]]"
    by auto
  with example_gated_built show ?thesis by blast
qed

text \<open>
  Claim C5 as stated speaks of the units that are not in \<open>input_indices\<close>. In the network
  of two units built with \<open>input_indices = [- 1]\<close>, unit 1 is not among the entries, and
  the rows 1, 3 and 5 of the built \<open>weight_ih\<close> are \<open>[1]\<close>: the index \<open>- 1\<close> designates
  unit 1, and unit 0 is the one whose rows are zero.
\<close>

theorem negative_input_index_counterexample:
  "and_then (SimpleStagedNetwork_init example_library 1 2 (Some 1) None example_gated
               example_linear example_linear False identity_func identity_func None
               (Some example_negative_structure) 0)
            (\<lambda>net. Inr (getattr_weight_ih (hidden net)))
     = Inr (Some (Weights [[0], [1], [0], [1], [0], [1]]))
   \<and> (1::int) \<notin> set (input_indices example_negative_structure)"
  by (simp add: init_eval example_defs example_negative_structure_def)

lemma example_leaky_built:
  "SimpleStagedNetwork_init example_library 1 2 (Some 1) None example_leaky example_linear
       example_linear False identity_func identity_func None (Some example_structure) 0
   = Inr \<lparr>input_size = 1,
          hidden = Leaky \<lparr>weight_hh = [[0, 0], [0, 0]], weight_ih = Weights [[1], [0]],
            cell_bias = None, use_bias = False, use_noise = False, noise_strength = 0,
            dt = 1, tau = 1, nonlinearity = (\<lambda>v. v)\<rparr>,
          hidden_size = 2, hidden_noise_std = None, hidden_nonlinearity = identity_func,
          out_size = Some 1, out_nonlinearity = identity_func,
          readout = Some (Masked \<lparr>linear = \<lparr>weight = [[0, 1 / 2]], bias = None\<rparr>,
                                  mask = [[0, 1]]\<rparr>),
          encoding_size = None, encoder = None,
          population_structure = Some example_structure\<rparr>"
  by (simp add: init_eval example_defs)

lemma model_spec_hidden_stage:
  assumes "encoder net = None"
  shows "map_of (model_spec lib net) ''hidden''
         = Some \<lparr>callable =
                   (if n_positional_args (hidden net) = 1
                    then (\<lambda>s. Inr (wrap_stateless_callable (\<lambda>x key. on_array (hidden_call1 (hidden s)) x)))
                    else (\<lambda>s. Inr (\<lambda>x st key. on_arrays2 (\<lambda>a b. hidden_call2 lib (hidden s) a b key) x st))),
                 where_input = (\<lambda>raw state. input state),
                 where_state = (\<lambda>state. NetworkState.hidden state)\<rparr>"
  using assms
  by (cases "readout net"; cases "hidden_noise_std net")
     (simp_all add: model_spec_def Let_def dict_update_fresh)

lemma leaky_replaced_step:
  "LeakyRNNCell_call (\<lambda>k n. replicate n 0)
       \<lparr>weight_hh = [[0, 0], [0, 0]], weight_ih = Weights [[5], [7]],
        cell_bias = None, use_bias = False, use_noise = False, noise_strength = 0,
        dt = 1, tau = 1, nonlinearity = (\<lambda>v. v)\<rparr> [1] [0, 0] 0 = Inr [5, 7]"
  by (simp add: LeakyRNNCell_call_def and_then_def alpha_def alpha_body_def dot_mat_vec_def
      vdot_def add_vec_def scale_vec_def)

text \<open>
  Claim C1. \<open>SimpleStagedNetwork_init\<close> multiplies the hidden layer's input weights by
  the mask once; the network keeps no mask for them, and the stage \<open>hidden\<close> calls the
  layer with whatever weights it holds. In the network of two units with a readout and
  \<open>input_indices = [0]\<close>, the built \<open>weight_ih\<close> is \<open>[[1], [0]]\<close>. After a replacement by
  \<open>[[5], [7]]\<close> the stage, run on input \<open>[1]\<close> and a zero hidden state, returns
  \<open>[5, 7]\<close>: unit 1, which is outside \<open>input_indices\<close>, receives the input through the
  weight \<open>7\<close>.
\<close>

theorem hidden_input_mask_not_reapplied:
  "and_then (SimpleStagedNetwork_init example_library 1 2 (Some 1) None example_leaky
               example_linear example_linear False identity_func identity_func None
               (Some example_structure) 0)
            (\<lambda>net. Inr (getattr_weight_ih (hidden net)))
     = Inr (Some (Weights [[1], [0]]))
   \<and> and_then (SimpleStagedNetwork_init example_library 1 2 (Some 1) None example_leaky
               example_linear example_linear False identity_func identity_func None
               (Some example_structure) 0)
            (\<lambda>net. run_stage example_library (replace_weight_ih net [[5], [7]]) ''hidden'' [[1]]
                      \<lparr>input = Some [1], hidden = Some [0, 0], output' = Some [0],
                       encoding = None\<rparr> 0)
     = Inr (Some [5, 7])"
proof -
  let ?N = "\<lparr>input_size = 1,
          hidden = Leaky \<lparr>weight_hh = [[0, 0], [0, 0]], weight_ih = Weights [[1], [0]],
            cell_bias = None, use_bias = False, use_noise = False, noise_strength = 0,
            dt = 1, tau = 1, nonlinearity = (\<lambda>v. v)\<rparr>,
          hidden_size = 2, hidden_noise_std = None, hidden_nonlinearity = identity_func,
          out_size = Some 1, out_nonlinearity = identity_func,
          readout = Some (Masked \<lparr>linear = \<lparr>weight = [[0, 1 / 2]], bias = None\<rparr>,
                                  mask = [[0, 1]]\<rparr>),
          encoding_size = None, encoder = None,
          population_structure = Some example_structure\<rparr>"
  have lib: "jr_normal example_library = (\<lambda>k n. replicate n 0)"
    by (simp add: example_library_def)
  have "run_stage example_library (replace_weight_ih ?N [[5], [7]]) ''hidden'' [[1]]
          \<lparr>input = Some [1], hidden = Some [0, 0], output' = Some [0], encoding = None\<rparr> 0
        = Inr (Some [5, 7])"
    unfolding run_stage_def
    by (subst model_spec_hidden_stage)
       (simp_all add: replace_weight_ih_def stage_result_def and_then_def on_arrays2_def lib
          leaky_replaced_step)
  then show ?thesis
    by (simp only: example_leaky_built) (simp add: and_then_def)
qed

text \<open>
  Claim C6. With a population structure the readout is a \<open>MaskedLinear\<close>, on which
  \<^verbatim>\<open>getattr(readout, "bias", None)\<close> finds nothing, so the branch that zeroes the bias
  is never entered: the readout of the two-unit network keeps the bias \<open>[1 / 2]\<close> its
  linear layer was created with. Without a population structure the same constructor
  arguments give a readout whose bias is \<open>[0]\<close>.
\<close>

theorem masked_readout_bias_not_zeroed:
  "and_then (SimpleStagedNetwork_init example_library 1 2 (Some 1) None example_leaky
               example_linear example_linear True identity_func identity_func None
               (Some example_structure) 0)
            (\<lambda>net. Inr (readout net))
     = Inr (Some (Masked \<lparr>linear = \<lparr>weight = [[0, 1 / 2]], bias = Some [1 / 2]\<rparr>,
                          mask = [[0, 1]]\<rparr>))
   \<and> and_then (SimpleStagedNetwork_init example_library 1 2 (Some 1) None example_leaky
               example_linear example_linear True identity_func identity_func None None 0)
            (\<lambda>net. Inr (readout net))
     = Inr (Some (Plain \<lparr>weight = [[1 / 2, 1 / 2]], bias = Some [0]\<rparr>))"
proof (rule conjI)
  show "and_then (SimpleStagedNetwork_init example_library 1 2 (Some 1) None example_leaky
               example_linear example_linear True identity_func identity_func None
               (Some example_structure) 0)
            (\<lambda>net. Inr (readout net))
     = Inr (Some (Masked \<lparr>linear = \<lparr>weight = [[0, 1 / 2]], bias = Some [1 / 2]\<rparr>,
                          mask = [[0, 1]]\<rparr>))"
    by (simp add: init_eval example_defs)
  show "and_then (SimpleStagedNetwork_init example_library 1 2 (Some 1) None example_leaky
               example_linear example_linear True identity_func identity_func None None 0)
            (\<lambda>net. Inr (readout net))
     = Inr (Some (Plain \<lparr>weight = [[1 / 2, 1 / 2]], bias = Some [0]\<rparr>))"
    by (simp add: init_eval example_defs)
qed

text \<open>
  Claim C4. With \<open>out_size = None\<close> the constructor never returns a network, whatever the
  other arguments: \<^verbatim>\<open>out_nonlinearity\<close> stays unset and the instance is refused. So there
  is no state of \<open>init\<close> and no sequence of stages for a network without a readout; the
  network of two units with neither encoder nor readout raises \<^verbatim>\<open>ValueError\<close>.
\<close>

theorem constructor_raises_without_readout:
  "(\<exists>e. SimpleStagedNetwork_init lib isz hsz None esz hidden_type encoder_type readout_type
          ub hnl onl hns pso key = Inl e)
   \<and> SimpleStagedNetwork_init example_library 1 2 None None example_leaky example_linear
        example_linear False identity_func identity_func None None 0 = Inl ValueError"
proof
  show "\<exists>e. SimpleStagedNetwork_init lib isz hsz None esz hidden_type encoder_type readout_type
          ub hnl onl hns pso key = Inl e"
    by (auto simp: SimpleStagedNetwork_init_def and_then_def
             split: prod.splits option.splits sum.splits)
  show "SimpleStagedNetwork_init example_library 1 2 None None example_leaky example_linear
        example_linear False identity_func identity_func None None 0 = Inl ValueError"
    by (simp add: init_eval example_defs)
qed

lemma model_spec_last:
  "\<exists>stages. model_spec lib net = stages @
      [(''out_nonlinearity'',
             \<lparr>callable = (\<lambda>s. Inr (wrap_stateless_keyless_callable (out_nonlinearity s))),
              where_input = (\<lambda>raw state. output' state),
              where_state = (\<lambda>state. output' state)\<rparr>)]"
  by (cases "encoder net"; cases "readout net"; cases "hidden_noise_std net")
     (simp_all add: model_spec_def Let_def dict_update_fresh)

text \<open>
  Claim C7, as the code has it. For every network, \<open>model_spec\<close> ends with the stage
  \<open>out_nonlinearity\<close>. Its input selector and its state selector both return the
  field \<open>output\<close> of the state, whatever the state holds there, and its callable is the
  wrapped \<open>out_nonlinearity\<close> of the model.
\<close>

theorem out_nonlinearity_stage_reads_output:
  "model_spec lib net \<noteq> []
   \<and> fst (last (model_spec lib net)) = ''out_nonlinearity''
   \<and> where_input (snd (last (model_spec lib net))) raw state = output' state
   \<and> where_state (snd (last (model_spec lib net))) state = output' state
   \<and> callable (snd (last (model_spec lib net))) net
       = Inr (wrap_stateless_keyless_callable (out_nonlinearity net))"
proof -
  obtain stages where "model_spec lib net = stages @
      [(''out_nonlinearity'',
             \<lparr>callable = (\<lambda>s. Inr (wrap_stateless_keyless_callable (out_nonlinearity s))),
              where_input = (\<lambda>raw state. output' state),
              where_state = (\<lambda>state. output' state)\<rparr>)]"
    using model_spec_last by blast
  then show ?thesis by simp
qed

theorem out_nonlinearity_stage_reads_output_witness:
  "\<exists>net. SimpleStagedNetwork_init example_library 1 2 (Some 1) None example_leaky
            example_linear example_linear False identity_func identity_func None
            (Some example_structure) 0 = Inr net
        \<and> fst (last (model_spec example_library net)) = ''out_nonlinearity''
        \<and> where_input (snd (last (model_spec example_library net))) [[1]]
              \<lparr>input = Some [1], hidden = Some [2, 3], output' = Some [5], encoding = None\<rparr>
            = Some [5]"
proof -
  obtain net where b: "SimpleStagedNetwork_init example_library 1 2 (Some 1) None
            example_leaky example_linear example_linear False identity_func identity_func None
            (Some example_structure) 0 = Inr net"
    using example_leaky_built by blast
  from out_nonlinearity_stage_reads_output [of example_library net "[[1]]"
        "\<lparr>input = Some [1], hidden = Some [2, 3], output' = Some [5], encoding = None\<rparr>"] b
  show ?thesis by auto
qed

text \<open>
  Claim C7 as stated says that the stage works on the hidden activity when the state has
  no output. On the built network of two units, for the state with hidden activity
  \<open>[2, 3]\<close> and output \<^verbatim>\<open>None\<close>, the input the stage selects is \<^verbatim>\<open>None\<close>, not the hidden
  activity.
\<close>

theorem out_nonlinearity_stage_ignores_hidden:
  "and_then (SimpleStagedNetwork_init example_library 1 2 (Some 1) None example_leaky
               example_linear example_linear False identity_func identity_func None
               (Some example_structure) 0)
            (\<lambda>net. Inr (where_input (snd (last (model_spec example_library net))) [[1]]
                           \<lparr>input = Some [1], hidden = Some [2, 3], output' = None,
                            encoding = None\<rparr>))
     = Inr None
   \<and> NetworkState.hidden
       \<lparr>input = Some [1], hidden = Some [2, 3], output' = None, encoding = None\<rparr> = Some [2, 3]"
  by (simp only: example_leaky_built)
     (simp add: and_then_def model_spec_def Let_def dict_update_fresh)

lemma masked_readout_keeps_library_bias:
  assumes "SimpleStagedNetwork_init lib isz hsz (Some os) esz hidden_type encoder_type
             readout_type ub hnl onl hns (Some ps) key = Inr net"
  shows "\<exists>m. readout net = Some (Masked m)
            \<and> bias (linear m) = bias (eqx_Linear lib hsz os ub (snd (snd (jr_split3 lib key))))"
  using assms
  by (auto simp: SimpleStagedNetwork_init_def and_then_def lift_layer_def MaskedLinear_init_def
                 zero_readout_bias_def Let_def
           split: prod.splits option.splits sum.splits)

text \<open>
  Without a population structure, a readout that is a linear layer with a bias is stored
  with that bias replaced by zeros of the same length.
\<close>

theorem plain_readout_bias_is_zeroed:
  assumes "SimpleStagedNetwork_init lib isz hsz (Some os) esz hidden_type encoder_type
             readout_type ub hnl onl hns None key = Inr net"
    and "readout_type hsz os (snd (snd (jr_split3 lib key))) = Plain l"
    and "bias l = Some b"
  shows "readout net = Some (Plain (l\<lparr>bias := Some (zeros (length b))\<rparr>))"
  using assms
  by (auto simp: SimpleStagedNetwork_init_def and_then_def zero_readout_bias_def
           split: prod.splits option.splits sum.splits)

theorem plain_readout_bias_is_zeroed_witness:
  "\<exists>net. SimpleStagedNetwork_init example_library 1 2 (Some 1) None example_leaky
            example_linear example_linear True identity_func identity_func None None 0
          = Inr net
        \<and> readout net = Some (Plain \<lparr>weight = [[1 / 2, 1 / 2]], bias = Some [0]\<rparr>)"
proof -
  have "\<exists>net. SimpleStagedNetwork_init example_library 1 2 (Some 1) None example_leaky
            example_linear example_linear True identity_func identity_func None None 0
          = Inr net"
    by (simp add: init_eval example_defs)
  then obtain net where b: "SimpleStagedNetwork_init example_library 1 2 (Some 1) None
            example_leaky example_linear example_linear True identity_func identity_func
            None None 0 = Inr net" ..
  have r: "example_linear 2 1 (snd (snd (jr_split3 example_library 0)))
           = Plain \<lparr>weight = [[1 / 2, 1 / 2]], bias = Some [1 / 2]\<rparr>"
    by (simp add: example_defs eval_nat_numeral)
  have "bias \<lparr>weight = [[1 / 2, 1 / 2]], bias = Some [1 / 2 :: real]\<rparr> = Some [1 / 2]"
    by simp
  from plain_readout_bias_is_zeroed[OF b r this] b
  show ?thesis by (auto simp: zeros_def)
qed

lemma built_with_readout_without_encoder:
  assumes "SimpleStagedNetwork_init lib isz hsz (Some os) None hidden_type encoder_type
             readout_type ub hnl onl hns pso key = Inr net"
  shows "encoder net = None" "readout net \<noteq> None" "encoding_size net = None"
    "out_size net = Some os" "hidden_noise_std net = hns"
  using assms
  by (auto simp: SimpleStagedNetwork_init_def and_then_def
           split: prod.splits option.splits sum.splits)

text \<open>
  A network built with a readout and without an encoder: the state \<open>init\<close> returns has
  no encoding and a zero output of \<open>out_size\<close> entries, and the stage labels of
  \<open>model_spec\<close> are \<open>input\<close>, \<open>hidden\<close>, \<open>hidden_nonlinearity\<close>, then \<open>hidden_noise\<close> if
  and only if a noise level was configured, then \<open>readout\<close> and \<open>out_nonlinearity\<close>.
\<close>

theorem stages_with_readout_without_encoder:
  assumes "SimpleStagedNetwork_init lib isz hsz (Some os) None hidden_type encoder_type
             readout_type ub hnl onl hns pso key = Inr net"
  shows "encoding (init net) = None
       \<and> output' (init net) = Some (zeros os)
       \<and> map fst (model_spec lib net)
           = [''input'', ''hidden'', ''hidden_nonlinearity'']
             @ (if hns = None then [] else [''hidden_noise''])
             @ [''readout'', ''out_nonlinearity'']"
  using built_with_readout_without_encoder[OF assms]
  by (auto simp: init_def model_spec_def Let_def dict_update_fresh)

theorem stages_with_readout_without_encoder_witness:
  "\<exists>net. SimpleStagedNetwork_init example_library 1 2 (Some 1) None example_leaky
            example_linear example_linear False identity_func identity_func (Some (1 / 10))
            None 0 = Inr net
        \<and> map fst (model_spec example_library net)
            = [''input'', ''hidden'', ''hidden_nonlinearity'', ''hidden_noise'', ''readout'',
               ''out_nonlinearity'']"
proof -
  have "\<exists>net. SimpleStagedNetwork_init example_library 1 2 (Some 1) None example_leaky
            example_linear example_linear False identity_func identity_func (Some (1 / 10))
            None 0 = Inr net"
    by (simp add: init_eval example_defs)
  then obtain net where b: "SimpleStagedNetwork_init example_library 1 2 (Some 1) None
            example_leaky example_linear example_linear False identity_func identity_func
            (Some (1 / 10)) None 0 = Inr net" ..
  from stages_with_readout_without_encoder[OF b] b
  show ?thesis by auto
qed

subsection \<open>CompositeLoss\<close>

lemma dict_set_values: "set (map snd (dict_set d k v)) \<subseteq> insert v (set (map snd d))"
  by (auto simp: dict_set_def split: if_splits)

lemma dict_update_values:
  "set (map snd (dict_update d e)) \<subseteq> set (map snd d) \<union> set (map snd e)"
proof (induction e arbitrary: d)
  case Nil
  then show ?case by (simp add: dict_update_def)
next
  case (Cons p e)
  obtain k v where p: "p = (k, v)" by (cases p)
  have "dict_update d (p # e) = dict_update (dict_set d k v) e"
    by (simp add: dict_update_def p)
  then show ?case using Cons.IH[of "dict_set d k v"] dict_set_values[of d k v] p by auto
qed

lemma flatten_composites_terms:
  assumes "flatten_composites unique comps (ls, ts, ws) = (ls', ts', ws')"
  shows "set ts' \<subseteq> set ts \<union> (\<Union>(g, c, w)\<in>set comps. set (map snd (terms c)))"
  using assms
proof (induction comps arbitrary: ls ts ws)
  case Nil
  then show ?case by simp
next
  case (Cons p comps)
  obtain g c w where p: "p = (g, c, w)" by (cases p)
  from Cons.prems obtain ls1 where
    "flatten_composites unique comps
       (ls1, ts @ map snd (terms c), ws @ map (\<lambda>x. w * x) (map snd (weights c)))
     = (ls', ts', ws')"
    by (simp add: p Let_def)
  from Cons.IH[OF this] show ?case by (auto simp: p)
qed

lemma flattened_terms_simple:
  assumes fl: "flatten_composites unique
               (filter (\<lambda>(l, t, w). is_composite t) (zip labels (zip ts wv)))
               (ls0,
                map (\<lambda>(l, t, w). t) (filter (\<lambda>(l, t, w). \<not> is_composite t) (zip labels (zip ts wv))),
                ws0)
             = (ls', ts', ws')"
    and ok: "\<forall>t\<in>set ts. one_level t"
  shows "one_level (CompositeLoss (dict_update [] (zip ls' ts')) wd label0)"
proof -
  have "\<forall>t\<in>set ts'. \<not> is_composite t"
  proof
    fix t assume t: "t \<in> set ts'"
    from flatten_composites_terms[OF fl] t
    have "t \<in> set (map (\<lambda>(l, t, w). t)
                     (filter (\<lambda>(l, t, w). \<not> is_composite t) (zip labels (zip ts wv))))
          \<or> (\<exists>g k w. (g, k, w) \<in> set (filter (\<lambda>(l, t, w). is_composite t) (zip labels (zip ts wv)))
                     \<and> t \<in> set (map snd (terms k)))"
      by fastforce
    then show "\<not> is_composite t"
    proof
      assume "t \<in> set (map (\<lambda>(l, t, w). t)
                     (filter (\<lambda>(l, t, w). \<not> is_composite t) (zip labels (zip ts wv))))"
      then show ?thesis by auto
    next
      assume "\<exists>g k w. (g, k, w) \<in> set (filter (\<lambda>(l, t, w). is_composite t) (zip labels (zip ts wv)))
                     \<and> t \<in> set (map snd (terms k))"
      then obtain g k w where
        gk: "(g, k, w) \<in> set (filter (\<lambda>(l, t, w). is_composite t) (zip labels (zip ts wv)))"
        and tk: "t \<in> set (map snd (terms k))" by blast
      from gk have "(k, w) \<in> set (zip ts wv)" and comp: "is_composite k"
        by (auto dest: set_zip_rightD)
      then have "k \<in> set ts" by (auto dest: set_zip_leftD)
      then have "one_level k" using ok by blast
      with comp tk show ?thesis
        by (cases k) (auto simp: list_all_iff)
    qed
  qed
  moreover have "set (map snd (dict_update [] (zip ls' ts'))) \<subseteq> set ts'"
  proof -
    have "set (map snd (zip ls' ts')) \<subseteq> set ts'"
      by (auto dest: set_zip_rightD)
    with dict_update_values[of "[]" "zip ls' ts'"] show ?thesis by simp
  qed
  ultimately show ?thesis by (auto simp: list_all_iff)
qed

lemma CompositeLoss_init_one_level:
  assumes terms_ok: "\<forall>t\<in>set (arg_terms terms0). one_level t"
    and built: "CompositeLoss_init unique terms0 weights0 label0 user_labels = Inr c"
  shows "one_level c"
proof -
  obtain labels ts where
    lt: "(case terms0 of
          TermsMapping m \<Rightarrow>
            (if user_labels
             then (if m = [] then Inl ValueError else Inr (map fst m, map snd m))
             else Inr (map label (map snd m), map snd m))
        | TermsSequence ts \<Rightarrow> Inr (map label ts, ts)) = Inr (labels, ts)"
    using built by (auto simp: CompositeLoss_init_def and_then_def split: sum.splits)
  then have ts: "ts = arg_terms terms0"
    by (cases terms0) (auto split: if_splits)
  define wv where "wv = (case weights0 of
               WeightsMapping wm \<Rightarrow> map snd wm
             | WeightsSequence ws \<Rightarrow> ws
             | WeightsNone \<Rightarrow> map (\<lambda>_. 1::real) ts)"
  obtain ls' ts' ws' where fl: "flatten_composites unique
               (filter (\<lambda>(l, t, w). is_composite t) (zip labels (zip ts wv)))
               (uniquify unique [] (map fst (filter (\<lambda>(l, t, w). \<not> is_composite t) (zip labels (zip ts wv)))),
                map (\<lambda>(l, t, w). t) (filter (\<lambda>(l, t, w). \<not> is_composite t) (zip labels (zip ts wv))),
                map (\<lambda>(l, t, w). w) (filter (\<lambda>(l, t, w). \<not> is_composite t) (zip labels (zip ts wv))))
             = (ls', ts', ws')"
    by (metis prod_cases3)
  have c: "c = CompositeLoss (dict_update [] (zip ls' ts')) (dict_update [] (zip ls' ws')) label0"
    using built unfolding CompositeLoss_init_def lt and_then_def
    by (simp add: Let_def wv_def[symmetric] fl split: if_splits)
  show ?thesis
    unfolding c using flattened_terms_simple[OF fl] terms_ok ts by blast
qed

lemma one_level_values_simple:
  assumes "one_level a" "is_composite a" "t \<in> set (map snd (terms a))"
  shows "one_level t"
proof -
  from assms have "\<not> is_composite t"
    by (cases a) (auto simp: list_all_iff)
  then show ?thesis by (cases t) simp_all
qed

lemma loss_or_one_level:
  assumes "one_level a" "one_level b" "loss_or unique a b = Inr c"
  shows "one_level c"
proof -
  have comp: "is_composite a" "is_composite b"
    and built: "CompositeLoss_init unique (TermsMapping (dict_update (terms a) (terms b)))
             (WeightsMapping (dict_update (weights a) (weights b))) (label b) True = Inr c"
    using assms(3) by (auto simp: loss_or_def split: if_splits)
  have "\<forall>t\<in>set (arg_terms (TermsMapping (dict_update (terms a) (terms b)))). one_level t"
  proof
    fix t assume "t \<in> set (arg_terms (TermsMapping (dict_update (terms a) (terms b))))"
    then have "t \<in> set (map snd (terms a)) \<union> set (map snd (terms b))"
      using dict_update_values[of "terms a" "terms b"] by auto
    then show "one_level t"
      using one_level_values_simple[OF assms(1) comp(1)]
            one_level_values_simple[OF assms(2) comp(2)] by blast
  qed
  then show ?thesis using built by (rule CompositeLoss_init_one_level)
qed

lemma flatten_composites_appends_weighted_aux:
  assumes "flatten_composites unique comps (ls, ts, ws) = (ls', ts', ws')"
  shows "ts' = ts @ concat (map (\<lambda>(g, c, w). map snd (terms c)) comps)
       \<and> ws' = ws @ concat (map (\<lambda>(g, c, w). map (\<lambda>x. w * x) (map snd (weights c))) comps)"
  using assms
proof (induction comps arbitrary: ls ts ws)
  case Nil
  then show ?case by simp
next
  case (Cons p comps)
  obtain g c w where p: "p = (g, c, w)" by (cases p)
  from Cons.prems obtain ls1 where
    "flatten_composites unique comps
       (ls1, ts @ map snd (terms c), ws @ map (\<lambda>x. w * x) (map snd (weights c)))
     = (ls', ts', ws')"
    by (simp add: p Let_def)
  from Cons.IH[OF this] show ?case by (simp add: p)
qed


lemma uniquify_length: "length (uniquify unique acc ls) = length acc + length ls"
  by (induction ls arbitrary: acc) simp_all

lemma flatten_composites_labels_length:
  assumes "flatten_composites unique comps (ls, ts, ws) = (ls', ts', ws')"
  shows "length ls' = length ls + length (concat (map (\<lambda>(g, c, w). map snd (terms c)) comps))"
  using assms
proof (induction comps arbitrary: ls ts ws)
  case Nil
  then show ?case by simp
next
  case (Cons p comps)
  obtain g c w where p: "p = (g, c, w)" by (cases p)
  from Cons.prems obtain ls1 where
    fl: "flatten_composites unique comps
       (ls1, ts @ map snd (terms c), ws @ map (\<lambda>x. w * x) (map snd (weights c)))
     = (ls', ts', ws')"
    and ls1: "length ls1 = length ls + length (terms c)"
    by (simp add: p Let_def uniquify_length split: if_splits)
  from Cons.IH[OF fl] ls1 show ?case by (simp add: p)
qed

lemma dict_update_distinct_append:
  "distinct (map fst (d @ e)) \<Longrightarrow> dict_update d e = d @ e"
proof (induction e arbitrary: d)
  case Nil
  then show ?case by (simp add: dict_update_def)
next
  case (Cons p e)
  obtain k v where p: "p = (k, v)" by (cases p)
  have fresh: "k \<notin> set (map fst d)" using Cons.prems by (auto simp: p)
  have "dict_update d (p # e) = dict_update (d @ [(k, v)]) e"
    using fresh by (simp add: dict_update_def dict_set_def p)
  also have "\<dots> = (d @ [(k, v)]) @ e"
    using Cons.prems by (intro Cons.IH) (simp add: p)
  finally show ?case by (simp add: p)
qed

lemma dict_of_distinct_zip:
  assumes "distinct ls"
  shows "dict_update [] (zip ls xs) = zip ls xs"
proof -
  have "distinct (map fst (zip ls xs))"
    using assms by (simp add: map_fst_zip_take distinct_take)
  then show ?thesis using dict_update_distinct_append[of "[]" "zip ls xs"] by simp
qed

lemma filter_labelled:
  assumes "length ls = length ps"
  shows "map snd (filter (\<lambda>(l, p). Q p) (zip ls ps)) = filter Q ps"
  using assms by (induction ls ps rule: list_induct2) simp_all

lemma CompositeLoss_init_content:
  assumes built: "CompositeLoss_init unique terms0 weights0 label0 user_labels = Inr c"
  shows "\<exists>ls. length ls
                = length (flattened_terms (zip (arg_terms terms0)
                                            (arg_weights weights0 (arg_terms terms0))))
            \<and> terms c = dict_update []
                 (zip ls (flattened_terms (zip (arg_terms terms0)
                                            (arg_weights weights0 (arg_terms terms0)))))
            \<and> weights c = dict_update []
                 (zip ls (flattened_weights (zip (arg_terms terms0)
                                            (arg_weights weights0 (arg_terms terms0)))))
            \<and> label c = label0"
proof -
  obtain labels ts where
    lt: "(case terms0 of
          TermsMapping m \<Rightarrow>
            (if user_labels
             then (if m = [] then Inl ValueError else Inr (map fst m, map snd m))
             else Inr (map label (map snd m), map snd m))
        | TermsSequence ts \<Rightarrow> Inr (map label ts, ts)) = Inr (labels, ts)"
    using built by (auto simp: CompositeLoss_init_def and_then_def split: sum.splits)
  then have ts: "ts = arg_terms terms0" and len_l: "length labels = length ts"
    by (cases terms0; auto split: if_splits)+
  define wv where "wv = (case weights0 of
               WeightsMapping wm \<Rightarrow> map snd wm
             | WeightsSequence ws \<Rightarrow> ws
             | WeightsNone \<Rightarrow> map (\<lambda>_. 1::real) ts)"
  have wv: "wv = arg_weights weights0 (arg_terms terms0)"
    unfolding wv_def ts by (cases weights0) simp_all
  let ?triples = "zip labels (zip ts wv)"
  let ?pairs = "zip ts wv"
  let ?simple = "filter (\<lambda>(l, t, w). \<not> is_composite t) ?triples"
  let ?comps = "filter (\<lambda>(l, t, w). is_composite t) ?triples"
  obtain ls' ts' ws' where fl: "flatten_composites unique ?comps
               (uniquify unique [] (map fst ?simple),
                map (\<lambda>(l, t, w). t) ?simple,
                map (\<lambda>(l, t, w). w) ?simple)
             = (ls', ts', ws')"
    by (metis prod_cases3)
  have len_w: "length ts = length wv" and
    c: "c = CompositeLoss (dict_update [] (zip ls' ts')) (dict_update [] (zip ls' ws')) label0"
    using built unfolding CompositeLoss_init_def lt and_then_def
    by (simp_all add: Let_def wv_def[symmetric] fl split: if_splits)
  have len_t: "length labels = length ?pairs" using len_l len_w by simp
  have s_pairs: "map snd ?simple = filter (\<lambda>(t, w). \<not> is_composite t) ?pairs"
    using filter_labelled[OF len_t, of "\<lambda>(t, w). \<not> is_composite t"]
    by (simp add: case_prod_unfold)
  have c_pairs: "map snd ?comps = filter (\<lambda>(t, w). is_composite t) ?pairs"
    using filter_labelled[OF len_t, of "\<lambda>(t, w). is_composite t"]
    by (simp add: case_prod_unfold)
  have st: "map (\<lambda>(l, t, w). t) ?simple = map fst (map snd ?simple)"
    and sw: "map (\<lambda>(l, t, w). w) ?simple = map snd (map snd ?simple)"
    by (simp_all add: case_prod_unfold)
  have ct: "concat (map (\<lambda>(g, c, w). map snd (terms c)) ?comps)
            = concat (map (\<lambda>(t, w). map snd (terms t)) (map snd ?comps))"
    and cw: "concat (map (\<lambda>(g, c, w). map (\<lambda>x. w * x) (map snd (weights c))) ?comps)
            = concat (map (\<lambda>(t, w). map (\<lambda>x. w * x) (map snd (weights t))) (map snd ?comps))"
    by (simp_all add: case_prod_unfold comp_def)
  from flatten_composites_appends_weighted_aux[OF fl]
  have ts': "ts' = flattened_terms ?pairs" and ws': "ws' = flattened_weights ?pairs"
    unfolding flattened_terms_def flattened_weights_def st sw ct cw s_pairs c_pairs
    by simp_all
  have "length ls' = length (map fst ?simple)
                     + length (concat (map (\<lambda>(g, c, w). map snd (terms c)) ?comps))"
    using flatten_composites_labels_length[OF fl] by (simp add: uniquify_length)
  also have "\<dots> = length (flattened_terms ?pairs)"
    unfolding flattened_terms_def ct c_pairs s_pairs[symmetric] by simp
  finally have len: "length ls' = length (flattened_terms ?pairs)" .
  show ?thesis
    using len c ts' ws' unfolding ts[symmetric] wv[unfolded ts[symmetric], symmetric]
    by (intro exI[of _ ls']) simp
qed

text \<open>
  Claim C10. Every loss produced by the constructor of \<open>CompositeLoss\<close>, and so by the
  operators \<open>+\<close>, \<open>-\<close>, \<open>*\<close> and \<open>|\<close>, from simple losses and losses so produced holds
  no composite among the values of its dictionary of terms. And what the constructor
  returns is the flattening of its arguments: under the labels it settles, its terms are
  the simple terms followed by the components of the composite terms, and its weights
  are the weights of the simple terms followed by the weights of the components, each
  multiplied by the weight of its parent composite; the dictionaries are these lists
  paired with the labels, entry for entry when the labels are distinct.
\<close>

theorem composite_loss_is_flattened_one_level:
  "(constructed unique c \<longrightarrow> one_level c)
   \<and> (CompositeLoss_init unique terms0 weights0 label0 user_labels = Inr c' \<longrightarrow>
        (\<exists>ls. length ls
                = length (flattened_terms (zip (arg_terms terms0)
                                            (arg_weights weights0 (arg_terms terms0))))
            \<and> terms c' = dict_update []
                 (zip ls (flattened_terms (zip (arg_terms terms0)
                                            (arg_weights weights0 (arg_terms terms0)))))
            \<and> weights c' = dict_update []
                 (zip ls (flattened_weights (zip (arg_terms terms0)
                                            (arg_weights weights0 (arg_terms terms0)))))
            \<and> (distinct ls \<longrightarrow>
                 terms c' = zip ls (flattened_terms (zip (arg_terms terms0)
                                            (arg_weights weights0 (arg_terms terms0))))
               \<and> weights c' = zip ls (flattened_weights (zip (arg_terms terms0)
                                            (arg_weights weights0 (arg_terms terms0)))))))"
proof (intro conjI impI)
  assume "constructed unique c"
  then show "one_level c"
  proof (induction rule: constructed.induct)
    case (simple l)
    then show ?case by simp
  next
    case (composite terms0 weights0 label0 user_labels c)
    then show ?case using CompositeLoss_init_one_level by blast
  next
    case (add a b c)
    then show ?case
      using CompositeLoss_init_one_level[of "TermsSequence [a, b]" unique "WeightsSequence [1, 1]" "[]" True c]
      by (simp add: loss_add_def)
  next
    case (sub a b c)
    then show ?case
      using CompositeLoss_init_one_level[of "TermsSequence [a, b]" unique "WeightsSequence [1, - 1]" "[]" True c]
      by (simp add: loss_sub_def)
  next
    case (rsub a b c)
    then show ?case
      using CompositeLoss_init_one_level[of "TermsSequence [a, b]" unique "WeightsSequence [- 1, 1]" "[]" True c]
      by (simp add: loss_rsub_def)
  next
    case (neg a c)
    then show ?case
      using CompositeLoss_init_one_level[of "TermsSequence [a]" unique "WeightsSequence [- 1]" "[]" True c]
      by (simp add: loss_neg_def)
  next
    case (mul a k c)
    then show ?case
      using CompositeLoss_init_one_level[of "TermsSequence [a]" unique "WeightsSequence [k]" "[]" True c]
      by (simp add: loss_mul_def)
  next
    case (or a b c)
    then show ?case using loss_or_one_level by blast
  qed
next
  assume "CompositeLoss_init unique terms0 weights0 label0 user_labels = Inr c'"
  from CompositeLoss_init_content[OF this]
  obtain ls where ls: "length ls
                = length (flattened_terms (zip (arg_terms terms0)
                                            (arg_weights weights0 (arg_terms terms0))))"
    "terms c' = dict_update []
                 (zip ls (flattened_terms (zip (arg_terms terms0)
                                            (arg_weights weights0 (arg_terms terms0)))))"
    "weights c' = dict_update []
                 (zip ls (flattened_weights (zip (arg_terms terms0)
                                            (arg_weights weights0 (arg_terms terms0)))))"
    by blast
  show "\<exists>ls. length ls
                = length (flattened_terms (zip (arg_terms terms0)
                                            (arg_weights weights0 (arg_terms terms0))))
            \<and> terms c' = dict_update []
                 (zip ls (flattened_terms (zip (arg_terms terms0)
                                            (arg_weights weights0 (arg_terms terms0)))))
            \<and> weights c' = dict_update []
                 (zip ls (flattened_weights (zip (arg_terms terms0)
                                            (arg_weights weights0 (arg_terms terms0)))))
            \<and> (distinct ls \<longrightarrow>
                 terms c' = zip ls (flattened_terms (zip (arg_terms terms0)
                                            (arg_weights weights0 (arg_terms terms0))))
               \<and> weights c' = zip ls (flattened_weights (zip (arg_terms terms0)
                                            (arg_weights weights0 (arg_terms terms0)))))"
    using ls by (intro exI[of _ ls]) (simp add: dict_of_distinct_zip)
qed

lemmas loss_eval = loss_add_def loss_mul_def CompositeLoss_init_def and_then_def Let_def
  dict_update_def dict_set_def example_unique_def

lemma example_inner_composite:
  "CompositeLoss_init example_unique (TermsSequence [SimpleLoss ''b'', SimpleLoss ''c''])
     (WeightsSequence [1, 3]) [] True
   = Inr (CompositeLoss [(''b'', SimpleLoss ''b''), (''c'', SimpleLoss ''c'')]
                        [(''b'', 1), (''c'', 3)] [])"
  by (simp add: loss_eval)

lemma example_outer_composite:
  "CompositeLoss_init example_unique
     (TermsSequence [SimpleLoss ''a'',
        CompositeLoss [(''b'', SimpleLoss ''b''), (''c'', SimpleLoss ''c'')]
                      [(''b'', 1), (''c'', 3)] []])
     (WeightsSequence [1, 2]) [] True
   = Inr (CompositeLoss
            [(''a'', SimpleLoss ''a''), (''b'', SimpleLoss ''b''), (''c'', SimpleLoss ''c'')]
            [(''a'', 1), (''b'', 2), (''c'', 6)] [])"
  by (simp add: loss_eval)

lemma example_flattened:
  "flattened_terms (zip (arg_terms (TermsSequence [SimpleLoss ''a'',
        CompositeLoss [(''b'', SimpleLoss ''b''), (''c'', SimpleLoss ''c'')]
                      [(''b'', 1), (''c'', 3)] []]))
     (arg_weights (WeightsSequence [1, 2]) (arg_terms (TermsSequence [SimpleLoss ''a'',
        CompositeLoss [(''b'', SimpleLoss ''b''), (''c'', SimpleLoss ''c'')]
                      [(''b'', 1), (''c'', 3)] []]))))
   = [SimpleLoss ''a'', SimpleLoss ''b'', SimpleLoss ''c'']"
  "flattened_weights (zip (arg_terms (TermsSequence [SimpleLoss ''a'',
        CompositeLoss [(''b'', SimpleLoss ''b''), (''c'', SimpleLoss ''c'')]
                      [(''b'', 1), (''c'', 3)] []]))
     (arg_weights (WeightsSequence [1, 2]) (arg_terms (TermsSequence [SimpleLoss ''a'',
        CompositeLoss [(''b'', SimpleLoss ''b''), (''c'', SimpleLoss ''c'')]
                      [(''b'', 1), (''c'', 3)] []]))))
   = [1, 2, 6]"
  by (simp_all add: flattened_terms_def flattened_weights_def)

theorem composite_loss_is_flattened_one_level_witness:
  "constructed example_unique
     (CompositeLoss
        [(''a'', SimpleLoss ''a''), (''b'', SimpleLoss ''b''), (''c'', SimpleLoss ''c'')]
        [(''a'', 1), (''b'', 2), (''c'', 6)] [])
   \<and> one_level
     (CompositeLoss
        [(''a'', SimpleLoss ''a''), (''b'', SimpleLoss ''b''), (''c'', SimpleLoss ''c'')]
        [(''a'', 1), (''b'', 2), (''c'', 6)] [])
   \<and> (\<exists>ls. length ls = 3
          \<and> [(''a'', SimpleLoss ''a''), (''b'', SimpleLoss ''b''), (''c'', SimpleLoss ''c'')]
            = dict_update [] (zip ls [SimpleLoss ''a'', SimpleLoss ''b'', SimpleLoss ''c''])
          \<and> [(''a'', 1 :: real), (''b'', 2), (''c'', 6)] = dict_update [] (zip ls [1, 2, 6]))"
proof -
  let ?inner = "CompositeLoss [(''b'', SimpleLoss ''b''), (''c'', SimpleLoss ''c'')]
                              [(''b'', 1), (''c'', 3)] []"
  let ?total = "CompositeLoss
        [(''a'', SimpleLoss ''a''), (''b'', SimpleLoss ''b''), (''c'', SimpleLoss ''c'')]
        [(''a'', 1), (''b'', 2), (''c'', 6)] []"
  have inner: "constructed example_unique ?inner"
    by (rule constructed.composite[OF _ example_inner_composite])
       (simp add: constructed.simple)
  have total: "constructed example_unique ?total"
    by (rule constructed.composite[OF _ example_outer_composite])
       (simp add: constructed.simple inner)
  note inst = composite_loss_is_flattened_one_level[of example_unique ?total
      "TermsSequence [SimpleLoss ''a'', ?inner]" "WeightsSequence [1, 2]" "[]" True ?total]
  from inst total have one: "one_level ?total" by blast
  let ?pairs = "zip (arg_terms (TermsSequence [SimpleLoss ''a'', ?inner]))
                    (arg_weights (WeightsSequence [1, 2])
                       (arg_terms (TermsSequence [SimpleLoss ''a'', ?inner])))"
  from inst example_outer_composite
  have "\<exists>ls. length ls = length (flattened_terms ?pairs)
          \<and> terms ?total = dict_update [] (zip ls (flattened_terms ?pairs))
          \<and> weights ?total = dict_update [] (zip ls (flattened_weights ?pairs))"
    by blast
  then have "\<exists>ls. length ls = 3
          \<and> terms ?total
            = dict_update [] (zip ls [SimpleLoss ''a'', SimpleLoss ''b'', SimpleLoss ''c''])
          \<and> weights ?total = dict_update [] (zip ls [1, 2, 6])"
    unfolding example_flattened by (simp add: numeral_3_eq_3)
  with total one show ?thesis by simp
qed

text \<open>
  The flattening loop appends, composite by composite and in order, the components of
  each composite term and their weights, each weight multiplied by the weight given for
  the composite.
\<close>

theorem flatten_composites_appends_weighted:
  assumes "flatten_composites unique comps (ls, ts, ws) = (ls', ts', ws')"
  shows "ts' = ts @ concat (map (\<lambda>(g, c, w). map snd (terms c)) comps)
       \<and> ws' = ws @ concat (map (\<lambda>(g, c, w). map (\<lambda>x. w * x) (map snd (weights c))) comps)"
  using assms by (rule flatten_composites_appends_weighted_aux)

theorem flatten_composites_appends_weighted_witness:
  "flatten_composites example_unique
     [([], CompositeLoss [(''b'', SimpleLoss ''b''), (''c'', SimpleLoss ''c'')]
                         [(''b'', 1), (''c'', 3)] [], 2)]
     ([''a''], [SimpleLoss ''a''], [1])
   = ([''a'', ''b'', ''c''], [SimpleLoss ''a'', SimpleLoss ''b'', SimpleLoss ''c''], [1, 2, 6])
   \<and> [1, 2, 6] = [1] @ concat (map (\<lambda>(g, c, w). map (\<lambda>x. w * x) (map snd (weights c)))
         [([] :: string, CompositeLoss [(''b'', SimpleLoss ''b''), (''c'', SimpleLoss ''c'')]
                         [(''b'', 1), (''c'', 3)] [], 2 :: real)])"
proof -
  have e: "flatten_composites example_unique
     [([], CompositeLoss [(''b'', SimpleLoss ''b''), (''c'', SimpleLoss ''c'')]
                         [(''b'', 1), (''c'', 3)] [], 2)]
     ([''a''], [SimpleLoss ''a''], [1])
   = ([''a'', ''b'', ''c''], [SimpleLoss ''a'', SimpleLoss ''b'', SimpleLoss ''c''], [1, 2, 6])"
    by (simp add: Let_def example_unique_def)
  show ?thesis
    by (rule conjI[OF e conjunct2[OF flatten_composites_appends_weighted[OF e]]])
qed

end
